theory Spec2Isabelle
  imports Main "HOL-Library.Sublist"
begin

section \<open>Arweave bundle upload: js/packages/cli/src/helpers/upload/arweave-bundle.ts\<close>

text \<open>
  A shallow embedding of the bundle-range computation \<open>getBundleRange\<close>, of the per-pair
  processing \<open>processBundleFilePair\<close> and of the generator
  \<open>makeArweaveBundleUploadGenerator\<close>.

  Strings and file contents are byte lists (UTF-8), so \<open>length\<close> is
  \<open>Buffer.byteLength\<close>. File sizes and byte counts are natural numbers: the source adds
  them as JavaScript numbers, which are exact below \<open>2 ^ 53\<close>.

  An \<open>await\<close>ed call is a value or an error together with the events it caused; the
  calls into the file system, the signer and the network are functions of a \<open>world\<close>.
  Logging (\<open>log.info\<close>, \<open>log.debug\<close>, \<open>console.log\<close>) and \<open>sizeMB\<close>, which only formats
  numbers for the log and for an error message, are left out.
\<close>

type_synonym path = string
type_synonym bytes = string

subsection \<open>Effects and errors\<close>

text \<open>A tag of a data item: name and value. \<open>getType\<close> of the mime package may return
  \<open>null\<close>, which is \<open>None\<close> here.\<close>

type_synonym Tag = "string \<times> string option"

text \<open>A \<open>DataItem\<close> of arbundles: the bytes it wraps, its tags and, once signed, its
  transaction id. \<open>createData\<close> leaves the id empty and \<open>sign\<close> sets it.\<close>

record DataItem =
  rawData :: bytes
  tags :: "Tag list"
  id_tx :: string

text \<open>What a thrown \<open>Error\<close> or a rejected promise carries. \<open>FilePairTooBig key n\<close> is the
  error of \<open>getBundleRange\<close>, whose message interpolates the key of the pair and
  \<open>sizeMB\<close> of its size \<open>n\<close>; \<open>ConfigError\<close> holds the message of the two checks at the
  start of the generator; \<open>TagFormatError\<close> is the "Incorrect tag format" error of
  \<open>createData\<close>, and \<open>SignerError\<close> a key that the constructor of a signer refuses.\<close>

datatype error =
    ConfigError string
  | FilePairTooBig string nat
  | StatError path
  | ReadFileError path
  | JSONSyntaxError
  | TypeError
  | SignerError
  | TagFormatError
  | SignError
  | StorageCostError
  | FundError
  | UploadError
  | PostError

text \<open>The calls that leave the process, in the order they are made.\<close>

datatype event =
    EvStat path
  | EvReadFile path
  | EvSign DataItem
  | EvGetStorageCost nat
  | EvFund nat
  | EvUploadTx DataItem
  | EvPostBundle "DataItem list"

text \<open>An awaited computation: the value it resolves to or the error it rejects with, and
  the events it caused.\<close>

type_synonym 'a io = "(error + 'a) \<times> event list"

definition io_return :: "'a \<Rightarrow> 'a io" where
  "io_return x = (Inr x, [])"

definition io_throw :: "error \<Rightarrow> 'a io" where
  "io_throw e = (Inl e, [])"

definition io_bind :: "'a io \<Rightarrow> ('a \<Rightarrow> 'b io) \<Rightarrow> 'b io" where
  "io_bind m f =
     (case m of
        (Inl e, t) \<Rightarrow> (Inl e, t)
      | (Inr x, t) \<Rightarrow> (case f x of (r, t') \<Rightarrow> (r, t @ t')))"

subsection \<open>JavaScript values read from and written to JSON\<close>

text \<open>
  \<open>JNum\<close> holds a number in the form \<open>JSON.stringify\<close> prints it. An object is the list of
  its own properties in property order. An array has its elements and, as any JavaScript
  object, may be given named properties, which \<open>JSON.stringify\<close> does not print.
\<close>

datatype json =
    JNull
  | JBool bool
  | JNum string
  | JStr string
  | JArr "json list" "(string \<times> json) list"
  | JObj "(string \<times> json) list"

definition hex_digit :: "nat \<Rightarrow> char" where
  "hex_digit n = ''0123456789abcdef'' ! (n mod 16)"

definition quote_char :: "char \<Rightarrow> string" where
  "quote_char c =
     (if c = CHR 0x22 then [CHR 0x5C, CHR 0x22]
      else if c = CHR 0x5C then [CHR 0x5C, CHR 0x5C]
      else if c = CHR 0x08 then [CHR 0x5C, CHR ''b'']
      else if c = CHR 0x0C then [CHR 0x5C, CHR ''f'']
      else if c = CHR 0x0A then [CHR 0x5C, CHR ''n'']
      else if c = CHR 0x0D then [CHR 0x5C, CHR ''r'']
      else if c = CHR 0x09 then [CHR 0x5C, CHR ''t'']
      else if (of_char c :: nat) < 32
        then [CHR 0x5C, CHR ''u'', CHR ''0'', CHR ''0'',
              hex_digit (of_char c div 16), hex_digit (of_char c)]
      else [c])"

definition quote :: "string \<Rightarrow> string" where
  "quote s = CHR 0x22 # concat (map quote_char s) @ [CHR 0x22]"

fun intercalate :: "string \<Rightarrow> string list \<Rightarrow> string" where
  "intercalate sep [] = []"
| "intercalate sep [x] = x"
| "intercalate sep (x # y # ys) = x @ sep @ intercalate sep (y # ys)"

fun JSON_stringify :: "json \<Rightarrow> string" where
  "JSON_stringify JNull = ''null''"
| "JSON_stringify (JBool b) = (if b then ''true'' else ''false'')"
| "JSON_stringify (JNum n) = n"
| "JSON_stringify (JStr s) = quote s"
| "JSON_stringify (JArr xs ps) = ''['' @ intercalate '','' (map JSON_stringify xs) @ '']''"
| "JSON_stringify (JObj kvs) =
     ''{'' @ intercalate '','' (map (\<lambda>(k, v). quote k @ '':'' @ JSON_stringify v) kvs) @ ''}''"

text \<open>Assignment \<open>o[k] = v\<close> to an object's own properties: an existing property keeps
  its place, a new one (here never an integer-like key) goes last.\<close>

fun assign :: "string \<Rightarrow> json \<Rightarrow> (string \<times> json) list \<Rightarrow> (string \<times> json) list" where
  "assign k v [] = [(k, v)]"
| "assign k v ((k', v') # ps) = (if k' = k then (k, v) # ps else (k', v') # assign k v ps)"

text \<open>\<open>target.k = v\<close> in strict mode (the file is an ES module): a \<open>TypeError\<close> on
  \<open>null\<close> and on a primitive.\<close>

fun set_prop :: "json \<Rightarrow> string \<Rightarrow> json \<Rightarrow> error + json" where
  "set_prop (JObj kvs) k v = Inr (JObj (assign k v kvs))"
| "set_prop (JArr xs ps) k v = Inr (JArr xs (assign k v ps))"
| "set_prop _ k v = Inl TypeError"

text \<open>\<open>target.k\<close> for a name \<open>k\<close> that is neither an index nor a member of a
  prototype; \<open>None\<close> is \<open>undefined\<close>.\<close>

fun get_prop :: "json \<Rightarrow> string \<Rightarrow> json option" where
  "get_prop (JObj kvs) k = map_of kvs k"
| "get_prop (JArr xs ps) k = map_of ps k"
| "get_prop _ k = None"

subsection \<open>The Arweave path manifest and the size of a dummy one\<close>

definition createArweavePathManifest :: "string \<Rightarrow> string \<Rightarrow> string \<Rightarrow> json" where
  "createArweavePathManifest imageTxId manifestTxId mediaType =
     JObj [(''manifest'', JStr ''arweave/paths''),
           (''version'', JStr ''0.1.0''),
           (''paths'', JObj [(''image'' @ mediaType, JObj [(''id'', JStr imageTxId)]),
                            (''metadata.json'', JObj [(''id'', JStr manifestTxId)])]),
           (''index'', JObj [(''path'', JStr ''metadata.json'')])]"

definition dummyAreaveManifestByteSize :: nat where
  "dummyAreaveManifestByteSize =
     length (JSON_stringify (createArweavePathManifest
       ''akBSbAEWTf6xDDnrG_BHKaxXjxoGuBnuhMnoYKUCDZo''
       ''akBSbAEWTf6xDDnrG_BHKaxXjxoGuBnuhMnoYKUCDZo''
       ''.png''))"

definition BUNDLE_SIZE_BYTE_LIMIT :: nat where
  "BUNDLE_SIZE_BYTE_LIMIT = 50 * 1024 * 1024"

subsection \<open>The collaborators\<close>

text \<open>Modelled from the spec: the enum \<open>StorageType\<close> is declared in
  \<open>../storage-type\<close>, which is not among the sources. The generator compares its
  argument with the two members \<open>ArweaveBundle\<close> (the bundled strategy, paid in AR) and
  \<open>ArweaveSol\<close> (the per-unit strategy, paid in SOL); \<open>OtherStorage\<close> stands for every
  other member.\<close>

datatype StorageType = ArweaveBundle | ArweaveSol | OtherStorage

text \<open>Modelled from the spec: \<open>AssetKey\<close> is declared in \<open>../../types\<close>, which is not
  among the sources; the generator reads its fields \<open>index\<close> and \<open>mediaExt\<close>.\<close>

record AssetKey =
  mediaExt :: string
  index :: string

record Keypair =
  secretKey :: bytes

type_synonym JWK = string

datatype Signer = SolanaSigner string | ArweaveSigner JWK

text \<open>
  The file system, the JSON parser, the mime package, the signing of arbundles and the
  two network clients are outside the file; the model takes them as functions.
  \<open>None\<close> or \<open>False\<close> is the call that throws or rejects. \<open>signer_ok\<close> says whether the
  constructor of the signer class accepts the key it is given.
\<close>

record world =
  stat_size :: "path \<Rightarrow> nat option"
  readFile :: "path \<Rightarrow> bytes option"
  JSON_parse :: "bytes \<Rightarrow> json option"
  getType :: "path \<Rightarrow> string option"
  getExtension :: "string option \<Rightarrow> string option"
  path_join :: "string \<Rightarrow> string \<Rightarrow> path"
  bs58_encode :: "bytes \<Rightarrow> string"
  signer_ok :: "Signer \<Rightarrow> bool"
  sign_id :: "Signer \<Rightarrow> bytes \<Rightarrow> Tag list \<Rightarrow> string option"
  data_length :: "bytes \<Rightarrow> nat"
  getStorageCost :: "nat \<Rightarrow> nat option"
  fund :: "nat \<Rightarrow> bool"
  upload_tx :: "DataItem \<Rightarrow> bool"
  post_bundle :: "DataItem list \<Rightarrow> bool"

definition stat :: "world \<Rightarrow> path \<Rightarrow> nat io" where
  "stat w f =
     (case stat_size w f of
        None \<Rightarrow> (Inl (StatError f), [EvStat f])
      | Some n \<Rightarrow> (Inr n, [EvStat f]))"

definition read_file :: "world \<Rightarrow> path \<Rightarrow> bytes io" where
  "read_file w f =
     (case readFile w f of
        None \<Rightarrow> (Inl (ReadFileError f), [EvReadFile f])
      | Some b \<Rightarrow> (Inr b, [EvReadFile f]))"

subsection \<open>getBundleRange\<close>

record FilePair =
  key :: string
  image_path :: path
  manifest :: path

record BundleRange =
  count :: nat
  size_bytes :: nat

text \<open>The \<open>reduce\<close> over \<open>[image, manifest]\<close>, started at the size of the dummy path
  manifest.\<close>

fun reduce_sizes :: "world \<Rightarrow> nat \<Rightarrow> path list \<Rightarrow> nat io" where
  "reduce_sizes w acc [] = io_return acc"
| "reduce_sizes w acc (f # fs) = io_bind (stat w f) (\<lambda>n. reduce_sizes w (acc + n) fs)"

definition filePairSize :: "world \<Rightarrow> FilePair \<Rightarrow> nat io" where
  "filePairSize w fp = reduce_sizes w dummyAreaveManifestByteSize [image_path fp, manifest fp]"

text \<open>The \<open>for ... of\<close> loop with its two variables \<open>total\<close> and \<open>count\<close>.\<close>

fun getBundleRange_loop :: "world \<Rightarrow> nat \<Rightarrow> nat \<Rightarrow> FilePair list \<Rightarrow> BundleRange io" where
  "getBundleRange_loop w tot cnt [] = io_return \<lparr>count = cnt, size_bytes = tot\<rparr>"
| "getBundleRange_loop w tot cnt (fp # rest) =
     io_bind (filePairSize w fp) (\<lambda>n.
       if tot + n \<ge> BUNDLE_SIZE_BYTE_LIMIT
       then (if cnt = 0 then io_throw (FilePairTooBig (key fp) n)
             else io_return \<lparr>count = cnt, size_bytes = tot\<rparr>)
       else getBundleRange_loop w (tot + n) (cnt + 1) rest)"

definition getBundleRange :: "world \<Rightarrow> FilePair list \<Rightarrow> BundleRange io" where
  "getBundleRange w filePairs = getBundleRange_loop w 0 0 filePairs"

subsection \<open>Data items\<close>

definition BASE_TAGS :: "Tag list" where
  "BASE_TAGS = [(''App-Name'', Some ''Metaplex Candy Machine'')]"

definition imageTags :: "Tag list" where
  "imageTags = BASE_TAGS"

definition manifestTags :: "Tag list" where
  "manifestTags = BASE_TAGS @ [(''Content-Type'', Some ''application/json'')]"

definition arweavePathManifestTags :: "Tag list" where
  "arweavePathManifestTags =
     BASE_TAGS @ [(''Content-Type'', Some ''application/x.arweave-manifest+json'')]"

text \<open>A call that is not awaited: it returns or throws, and causes no event.\<close>

definition io_of :: "error + 'a \<Rightarrow> 'a io" where
  "io_of r = (r, [])"

text \<open>\<open>createData\<close> of arbundles: an unsigned item. Its serialisation of the tags throws
  "Incorrect tag format" when the value of a tag is not a string, which here is the
  content type \<open>null\<close> of a file of unknown media type.\<close>

definition createData :: "bytes \<Rightarrow> Signer \<Rightarrow> Tag list \<Rightarrow> error + DataItem" where
  "createData b s ts =
     (if list_ex (\<lambda>t. snd t = None) ts then Inl TagFormatError
      else Inr \<lparr>rawData = b, tags = ts, id_tx = []\<rparr>)"

text \<open>\<open>await item.sign(signer)\<close>: the item has its id afterwards.\<close>

definition sign :: "world \<Rightarrow> DataItem \<Rightarrow> Signer \<Rightarrow> DataItem io" where
  "sign w d s =
     (case sign_id w s (rawData d) (tags d) of
        None \<Rightarrow> (Inl SignError, [EvSign d])
      | Some i \<Rightarrow> (Inr (d\<lparr>id_tx := i\<rparr>), [EvSign d]))"

definition getImageDataItem :: "world \<Rightarrow> Signer \<Rightarrow> path \<Rightarrow> string option \<Rightarrow> DataItem io" where
  "getImageDataItem w s imagePath contentType =
     io_bind (read_file w imagePath) (\<lambda>b.
       io_of (createData b s (imageTags @ [(''Content-Type'', contentType)])))"

definition getManifestDataItem :: "Signer \<Rightarrow> json \<Rightarrow> error + DataItem" where
  "getManifestDataItem s m = createData (JSON_stringify m) s manifestTags"

definition getArweavePathManifestDataItem :: "Signer \<Rightarrow> json \<Rightarrow> error + DataItem" where
  "getArweavePathManifestDataItem s pm = createData (JSON_stringify pm) s arweavePathManifestTags"

text \<open>A value that may be \<open>null\<close>, in a template literal and as a JSON value.\<close>

definition js_str :: "string option \<Rightarrow> string" where
  "js_str v = (case v of None \<Rightarrow> ''null'' | Some s \<Rightarrow> s)"

definition js_val :: "string option \<Rightarrow> json" where
  "js_val v = (case v of None \<Rightarrow> JNull | Some s \<Rightarrow> JStr s)"

subsection \<open>getUpdatedManifest\<close>

text \<open>
  Reads and parses the manifest, then \<open>manifest.image = imageLink\<close> and
  \<open>manifest.properties.files = [{type, uri}]\<close>. The second assignment changes the object
  that \<open>manifest.properties\<close> holds, so that property of the manifest is replaced by the
  changed object.
\<close>

definition getUpdatedManifest :: "world \<Rightarrow> path \<Rightarrow> string \<Rightarrow> string option \<Rightarrow> json io" where
  "getUpdatedManifest w manifestPath imageLink contentType =
     io_bind (read_file w manifestPath) (\<lambda>b.
       case JSON_parse w b of
         None \<Rightarrow> io_throw JSONSyntaxError
       | Some m \<Rightarrow>
          (case set_prop m ''image'' (JStr imageLink) of
             Inl e \<Rightarrow> io_throw e
           | Inr m1 \<Rightarrow>
              (case get_prop m1 ''properties'' of
                 None \<Rightarrow> io_throw TypeError
               | Some props \<Rightarrow>
                  (case set_prop props ''files''
                          (JArr [JObj [(''type'', js_val contentType), (''uri'', JStr imageLink)]] []) of
                     Inl e \<Rightarrow> io_throw e
                   | Inr props' \<Rightarrow>
                      (case set_prop m1 ''properties'' props' of
                         Inl e \<Rightarrow> io_throw e
                       | Inr m2 \<Rightarrow> io_return m2)))))"

subsection \<open>processBundleFilePair and the reduce over the pairs of a bundle\<close>

record UploadGeneratorResult =
  cacheKeys :: "string list"
  arweavePathManifestLinks :: "string list"
  updatedManifests :: "json list"

record ProcessedBundleFilePairs = UploadGeneratorResult +
  dataItems :: "DataItem list"

definition processBundleFilePair ::
  "world \<Rightarrow> Signer \<Rightarrow> ProcessedBundleFilePairs \<Rightarrow> FilePair \<Rightarrow> ProcessedBundleFilePairs io" where
  "processBundleFilePair w s acc filePair =
     (let contentType = getType w (image_path filePair) in
      io_bind (getImageDataItem w s (image_path filePair) contentType) (\<lambda>imageDataItem0.
      io_bind (sign w imageDataItem0 s) (\<lambda>imageDataItem.
      let imageLink = ''https://arweave.net/'' @ id_tx imageDataItem in
      io_bind (getUpdatedManifest w (manifest filePair) imageLink contentType) (\<lambda>m.
      io_bind (io_of (getManifestDataItem s m)) (\<lambda>manifestDataItem0.
      io_bind (sign w manifestDataItem0 s) (\<lambda>manifestDataItem.
      let arweavePathManifest =
            createArweavePathManifest (id_tx imageDataItem) (id_tx manifestDataItem)
              (''.'' @ js_str (getExtension w contentType)) in
      io_bind (io_of (getArweavePathManifestDataItem s arweavePathManifest))
        (\<lambda>arweavePathManifestDataItem0.
      io_bind (sign w arweavePathManifestDataItem0 s) (\<lambda>arweavePathManifestDataItem.
      let arweavePathManifestLink = ''https://arweave.net/'' @ id_tx manifestDataItem in
      io_return
        (acc\<lparr>cacheKeys := cacheKeys acc @ [key filePair],
             dataItems := dataItems acc
                @ [imageDataItem, manifestDataItem, arweavePathManifestDataItem],
             arweavePathManifestLinks := arweavePathManifestLinks acc @ [arweavePathManifestLink],
             updatedManifests := updatedManifests acc @ [m]\<rparr>)))))))))"

fun reduce_pairs ::
  "world \<Rightarrow> Signer \<Rightarrow> ProcessedBundleFilePairs \<Rightarrow> FilePair list \<Rightarrow> ProcessedBundleFilePairs io" where
  "reduce_pairs w s acc [] = io_return acc"
| "reduce_pairs w s acc (fp # fps) =
     io_bind (processBundleFilePair w s acc fp) (\<lambda>acc'. reduce_pairs w s acc' fps)"

definition empty_acc :: ProcessedBundleFilePairs where
  "empty_acc =
     \<lparr>cacheKeys = [], arweavePathManifestLinks = [], updatedManifests = [], dataItems = []\<rparr>"

subsection \<open>Submission\<close>

definition storage_cost :: "world \<Rightarrow> nat \<Rightarrow> nat io" where
  "storage_cost w n =
     (case getStorageCost w n of
        None \<Rightarrow> (Inl StorageCostError, [EvGetStorageCost n])
      | Some c \<Rightarrow> (Inr c, [EvGetStorageCost n]))"

definition fund_account :: "world \<Rightarrow> nat \<Rightarrow> unit io" where
  "fund_account w c = (if fund w c then Inr () else Inl FundError, [EvFund c])"

text \<open>\<open>createTransaction\<close>, \<open>tx.sign\<close> and \<open>tx.upload\<close> of one data item.\<close>

definition upload_item :: "world \<Rightarrow> DataItem \<Rightarrow> unit io" where
  "upload_item w d = (if upload_tx w d then Inr () else Inl UploadError, [EvUploadTx d])"

fun upload_items :: "world \<Rightarrow> DataItem list \<Rightarrow> unit io" where
  "upload_items w [] = io_return ()"
| "upload_items w (d # ds) = io_bind (upload_item w d) (\<lambda>_. upload_items w ds)"

text \<open>\<open>bundleAndSignData\<close>, \<open>toTransaction\<close>, \<open>transactions.sign\<close> and
  \<open>transactions.post\<close> of the whole bundle.\<close>

definition post_items :: "world \<Rightarrow> DataItem list \<Rightarrow> unit io" where
  "post_items w ds = (if post_bundle w ds then Inr () else Inl PostError, [EvPostBundle ds])"

subsection \<open>The generator\<close>

record gen_args =
  storage :: StorageType
  dirname :: string
  assets :: "AssetKey list"
  jwk :: "JWK option"
  walletKeyPair :: "Keypair option"

text \<open>The local variables of the generator once it has passed its first \<open>yield\<close>.\<close>

record gen_locals =
  params :: gen_args
  signer :: Signer
  storageType :: StorageType
  filePairs :: "FilePair list"

text \<open>The \<open>then\<close> callback of the promise of one bundle. The \<open>splice\<close> takes the first
  \<open>count\<close> pairs off \<open>filePairs\<close>; the changed locals are returned beside the settled
  promise.\<close>

definition processBundle ::
  "world \<Rightarrow> gen_locals \<Rightarrow> BundleRange \<Rightarrow> UploadGeneratorResult io \<times> gen_locals" where
  "processBundle w c r =
     (let bundleFilePairs = take (count r) (filePairs c);
          c' = c\<lparr>filePairs := drop (count r) (filePairs c)\<rparr>
      in (io_bind (reduce_pairs w (signer c') empty_acc bundleFilePairs) (\<lambda>acc.
          io_bind (if storageType c' = ArweaveSol
                   then (case walletKeyPair (params c') of
                           None \<Rightarrow> io_throw TypeError
                         | Some kp \<Rightarrow>
                             (let n = foldl (\<lambda>b d. b + data_length w (rawData d)) 0 (dataItems acc)
                              in io_bind (storage_cost w n) (\<lambda>cost.
                                 io_bind (fund_account w cost) (\<lambda>_.
                                 upload_items w (dataItems acc)))))
                   else io_return ()) (\<lambda>_.
          io_bind (if storageType c' = ArweaveBundle
                   then post_items w (dataItems acc)
                   else io_return ()) (\<lambda>_.
          io_return \<lparr>cacheKeys = cacheKeys acc,
                     arweavePathManifestLinks = arweavePathManifestLinks acc,
                     updatedManifests = updatedManifests acc\<rparr>))), c'))"

datatype gen_state = SuspendedStart gen_args | SuspendedYield gen_locals | Completed

text \<open>What one resumption gives its caller: the generator throws, or it yields a promise,
  here with what the promise settles to, or it is done.\<close>

datatype resumption = Threw error | Yielded "error + UploadGeneratorResult" | Done

text \<open>\<open>new signers.SolanaSigner(...)\<close> and \<open>new signers.ArweaveSigner(jwk)\<close>. The
  second reads properties of \<open>jwk\<close> and throws a \<open>TypeError\<close> when it is \<open>undefined\<close>; so
  would \<open>walletKeyPair.secretKey\<close>, which the first check of the generator excludes.\<close>

definition new_signer :: "world \<Rightarrow> Signer \<Rightarrow> error + Signer" where
  "new_signer w s = (if signer_ok w s then Inr s else Inl SignerError)"

definition makeSigner :: "world \<Rightarrow> gen_args \<Rightarrow> error + Signer" where
  "makeSigner w a =
     (if storage a = ArweaveSol
      then (case walletKeyPair a of
              None \<Rightarrow> Inl TypeError
            | Some kp \<Rightarrow> new_signer w (SolanaSigner (bs58_encode w (secretKey kp))))
      else (case jwk a of
              None \<Rightarrow> Inl TypeError
            | Some j \<Rightarrow> new_signer w (ArweaveSigner j)))"

definition makeFilePairs :: "world \<Rightarrow> gen_args \<Rightarrow> FilePair list" where
  "makeFilePairs w a =
     map (\<lambda>asset. \<lparr>key = index asset,
                    image_path = path_join w (dirname a) (index asset @ mediaExt asset),
                    manifest = path_join w (dirname a) (index asset @ ''.json'')\<rparr>) (assets a)"

definition empty_result :: UploadGeneratorResult where
  "empty_result = \<lparr>cacheKeys = [], arweavePathManifestLinks = [], updatedManifests = []\<rparr>"

text \<open>
  One resumption: \<open>next()\<close> on the generator, and the promise it yields awaited before the
  generator is resumed again. The first resumption runs the body up to the first
  \<open>yield\<close>; a later one runs the test of the \<open>while\<close> loop and, if pairs remain, the
  promise \<open>getBundleRange(filePairs).then(processBundle)\<close>. When \<open>getBundleRange\<close> rejects,
  the callback does not run and \<open>filePairs\<close> is as before.
\<close>

fun resume :: "world \<Rightarrow> gen_state \<Rightarrow> resumption \<times> gen_state \<times> event list" where
  "resume w (SuspendedStart a) =
     (if storage a = ArweaveSol \<and> walletKeyPair a = None
      then (Threw (ConfigError ''To pay for uploads with SOL, you need to pass a Solana Keypair''),
            Completed, [])
      else if storage a = ArweaveBundle
      then (Threw (ConfigError ''To pay for uploads with AR, you need to pass a Arweave JWK''),
            Completed, [])
      else (case makeSigner w a of
              Inl e \<Rightarrow> (Threw e, Completed, [])
            | Inr s \<Rightarrow>
                (Yielded (Inr empty_result),
                 SuspendedYield \<lparr>params = a, signer = s, storageType = storage a,
                                 filePairs = makeFilePairs w a\<rparr>, [])))"
| "resume w (SuspendedYield c) =
     (if filePairs c = [] then (Done, Completed, [])
      else (case getBundleRange w (filePairs c) of
              (Inl e, t) \<Rightarrow> (Yielded (Inl e), SuspendedYield c, t)
            | (Inr r, t) \<Rightarrow>
                (case processBundle w c r of
                   ((res, t'), c') \<Rightarrow> (Yielded res, SuspendedYield c', t @ t'))))"
| "resume w Completed = (Done, Completed, [])"

text \<open>\<open>n\<close> resumptions in a row: what each gave, the state left and all events.\<close>

fun resumptions :: "world \<Rightarrow> nat \<Rightarrow> gen_state \<Rightarrow> resumption list \<times> gen_state \<times> event list" where
  "resumptions w 0 st = ([], st, [])"
| "resumptions w (Suc n) st =
     (case resume w st of
        (r, st', t) \<Rightarrow>
          (case resumptions w n st' of
             (rs, st'', t') \<Rightarrow> (r # rs, st'', t @ t')))"

text \<open>The results of the promises that were fulfilled, in yield order.\<close>

fun fulfilled :: "resumption list \<Rightarrow> UploadGeneratorResult list" where
  "fulfilled [] = []"
| "fulfilled (Yielded (Inr res) # rs) = res # fulfilled rs"
| "fulfilled (_ # rs) = fulfilled rs"

fun failed :: "resumption \<Rightarrow> bool" where
  "failed (Threw e) = True"
| "failed (Yielded (Inl e)) = True"
| "failed _ = False"

text \<open>The events that hand something to the storage network.\<close>

fun is_submission :: "event \<Rightarrow> bool" where
  "is_submission (EvFund c) = True"
| "is_submission (EvUploadTx d) = True"
| "is_submission (EvPostBundle ds) = True"
| "is_submission _ = False"

text \<open>The events that only measure a file.\<close>

fun is_stat :: "event \<Rightarrow> bool" where
  "is_stat (EvStat f) = True"
| "is_stat _ = False"

subsection \<open>The size of a pair as the specification words it\<close>

text \<open>Section 4.2 of the specification: the measured size of the payload file and of the
  metadata file of a pair plus the fixed overhead; \<open>None\<close> when one of the two files
  cannot be measured. It is compared with \<open>filePairSize\<close> in \<open>fst_filePairSize\<close>.\<close>

definition spec_pair_size :: "world \<Rightarrow> FilePair \<Rightarrow> nat option" where
  "spec_pair_size w fp =
     (case stat_size w (image_path fp) of
        None \<Rightarrow> None
      | Some a \<Rightarrow>
         (case stat_size w (manifest fp) of
            None \<Rightarrow> None
          | Some b \<Rightarrow> Some (dummyAreaveManifestByteSize + a + b)))"

subsection \<open>Manifests that getUpdatedManifest rejects\<close>

text \<open>
  The two assignments of \<open>getUpdatedManifest\<close> go through exactly when the parsed value
  has a property \<open>properties\<close> that holds an object or an array;
  \<open>metadata_unusable\<close> is the manifest file that cannot be read, whose text is not JSON,
  or whose value is not of that shape. \<open>getUpdatedManifest_fails_iff\<close> compares it with the
  function.
\<close>

definition manifest_shape_ok :: "json \<Rightarrow> bool" where
  "manifest_shape_ok m =
     (case get_prop m ''properties'' of
        Some (JObj kvs) \<Rightarrow> True
      | Some (JArr xs ps) \<Rightarrow> True
      | _ \<Rightarrow> False)"

definition metadata_unusable :: "world \<Rightarrow> path \<Rightarrow> bool" where
  "metadata_unusable w f =
     (case readFile w f of
        None \<Rightarrow> True
      | Some b \<Rightarrow> (case JSON_parse w b of None \<Rightarrow> True | Some m \<Rightarrow> \<not> manifest_shape_ok m))"

text \<open>A state of the loop in which no call can fail: every data item can be signed,
  every pending pair has a readable image of a known media type, a usable manifest and a
  size below the limit,
  and the network calls of the chosen storage succeed.\<close>

definition healthy :: "world \<Rightarrow> gen_locals \<Rightarrow> bool" where
  "healthy w c \<longleftrightarrow>
     (\<forall>b ts. sign_id w (signer c) b ts \<noteq> None)
     \<and> (\<forall>fp\<in>set (filePairs c).
           readFile w (image_path fp) \<noteq> None \<and> getType w (image_path fp) \<noteq> None
           \<and> \<not> metadata_unusable w (manifest fp)
           \<and> (\<exists>n. spec_pair_size w fp = Some n \<and> n < BUNDLE_SIZE_BYTE_LIMIT))
     \<and> (storageType c = ArweaveSol \<longrightarrow>
           walletKeyPair (params c) \<noteq> None \<and> (\<forall>n. getStorageCost w n \<noteq> None)
           \<and> (\<forall>x. fund w x) \<and> (\<forall>d. upload_tx w d))
     \<and> (storageType c = ArweaveBundle \<longrightarrow> (\<forall>ds. post_bundle w ds))"

subsection \<open>A collection of three assets\<close>

text \<open>
  Three assets \<open>0\<close>, \<open>1\<close>, \<open>2\<close> in \<open>/assets\<close>. Each image is 20 MB on disk (its bytes,
  which only the signing function looks at, are abbreviated to a few characters) and each
  manifest is the same small JSON document. A transaction id is a checksum of the signed
  data, written with five hexadecimal digits.
\<close>

definition demo_id :: "bytes \<Rightarrow> string" where
  "demo_id b =
     (let h = foldl (\<lambda>h c. (31 * h + of_char c) mod 1048576) 7 b
      in ''tx'' @ [hex_digit (h div 65536), hex_digit (h div 4096), hex_digit (h div 256),
                  hex_digit (h div 16), hex_digit h])"

definition demo_manifest :: json where
  "demo_manifest =
     JObj [(''name'', JStr ''Asset''), (''image'', JStr ''image.png''),
           (''properties'', JObj [(''files'', JArr [] [])])]"

definition demo_world :: world where
  "demo_world =
     \<lparr>stat_size = (\<lambda>f.
        if f \<in> {''/assets/0.png'', ''/assets/1.png'', ''/assets/2.png''} then Some 20000000
        else if f \<in> {''/assets/0.json'', ''/assets/1.json'', ''/assets/2.json''}
        then Some (length (JSON_stringify demo_manifest))
        else None),
      readFile = (\<lambda>f.
        if f \<in> {''/assets/0.png'', ''/assets/1.png'', ''/assets/2.png''} then Some (''PNG '' @ f)
        else if f \<in> {''/assets/0.json'', ''/assets/1.json'', ''/assets/2.json''}
        then Some (JSON_stringify demo_manifest)
        else None),
      JSON_parse = (\<lambda>b. if b = JSON_stringify demo_manifest then Some demo_manifest else None),
      getType = (\<lambda>f. Some ''image/png''),
      getExtension = (\<lambda>t. Some ''png''),
      path_join = (\<lambda>d f. d @ ''/'' @ f),
      bs58_encode = (\<lambda>b. b),
      signer_ok = (\<lambda>s. True),
      sign_id = (\<lambda>s b ts. Some (demo_id b)),
      data_length = (\<lambda>b. (4 * length b + 2) div 3),
      getStorageCost = (\<lambda>n. Some n),
      fund = (\<lambda>c. True),
      upload_tx = (\<lambda>d. True),
      post_bundle = (\<lambda>ds. True)\<rparr>"

definition demo_pair :: "string \<Rightarrow> FilePair" where
  "demo_pair i =
     \<lparr>key = i, image_path = ''/assets/'' @ i @ ''.png'', manifest = ''/assets/'' @ i @ ''.json''\<rparr>"

definition demo_args :: gen_args where
  "demo_args =
     \<lparr>storage = ArweaveSol, dirname = ''/assets'',
      assets = [\<lparr>mediaExt = ''.png'', index = ''0''\<rparr>, \<lparr>mediaExt = ''.png'', index = ''1''\<rparr>,
                \<lparr>mediaExt = ''.png'', index = ''2''\<rparr>],
      jwk = None, walletKeyPair = Some \<lparr>secretKey = ''secret''\<rparr>\<rparr>"

text \<open>The manifest of asset \<open>0\<close> once it is linked to its image, whose data item has the
  id \<open>tx35490\<close>.\<close>

definition demo_linked_manifest :: json where
  "demo_linked_manifest =
     JObj [(''name'', JStr ''Asset''), (''image'', JStr ''https://arweave.net/tx35490''),
           (''properties'', JObj [(''files'',
              JArr [JObj [(''type'', JStr ''image/png''),
                          (''uri'', JStr ''https://arweave.net/tx35490'')]] [])])]"

text \<open>The same collection with a first image of 60 MB.\<close>

definition big_world :: world where
  "big_world =
     demo_world\<lparr>stat_size :=
       (\<lambda>f. if f = ''/assets/0.png'' then Some 60000000 else stat_size demo_world f)\<rparr>"

text \<open>The same collection with a manifest \<open>1.json\<close> that is not JSON.\<close>

definition bad_world :: world where
  "bad_world =
     demo_world\<lparr>stat_size :=
                  (\<lambda>f. if f = ''/assets/1.json'' then Some 1 else stat_size demo_world f),
                readFile :=
                  (\<lambda>f. if f = ''/assets/1.json'' then Some ''{'' else readFile demo_world f)\<rparr>"

text \<open>The same collection without the file \<open>1.json\<close>.\<close>

definition missing_world :: world where
  "missing_world =
     demo_world\<lparr>stat_size :=
                  (\<lambda>f. if f = ''/assets/1.json'' then None else stat_size demo_world f),
                readFile :=
                  (\<lambda>f. if f = ''/assets/1.json'' then None else readFile demo_world f)\<rparr>"

text \<open>The locals of the generator after its first resumption on \<open>demo_args\<close>.\<close>

definition demo_locals :: gen_locals where
  "demo_locals =
     \<lparr>params = demo_args, signer = SolanaSigner ''secret'', storageType = ArweaveSol,
      filePairs = [demo_pair ''0'', demo_pair ''1'', demo_pair ''2'']\<rparr>"

section \<open>Properties\<close>

subsection \<open>Awaited computations\<close>

lemma io_bind_Inl [simp]: "io_bind (Inl e, t) f = (Inl e, t)"
  by (simp add: io_bind_def)

lemma io_bind_Inr [simp]: "io_bind (Inr x, t) f = (case f x of (r, t') \<Rightarrow> (r, t @ t'))"
  by (simp add: io_bind_def)

lemma fst_case_io [simp]: "fst (case p of (r, t') \<Rightarrow> (r, g t')) = fst p"
  by (cases p) simp

lemma snd_case_io [simp]: "snd (case p of (r, t') \<Rightarrow> (r, g t')) = g (snd p)"
  by (cases p) simp

lemma fst_io_bind:
  "fst (io_bind m f) = (case fst m of Inl e \<Rightarrow> Inl e | Inr x \<Rightarrow> fst (f x))"
  by (cases m) (auto simp: io_bind_def split: sum.splits prod.splits)

lemma snd_io_bind:
  "snd (io_bind m f) = (case fst m of Inl e \<Rightarrow> snd m | Inr x \<Rightarrow> snd m @ snd (f x))"
  by (cases m) (auto simp: io_bind_def split: sum.splits prod.splits)

subsection \<open>The range of a bundle\<close>

lemma dummy_size_value: "dummyAreaveManifestByteSize = 223"
  by (simp add: dummyAreaveManifestByteSize_def createArweavePathManifest_def quote_def quote_char_def)

lemma fst_filePairSize:
  "fst (filePairSize w fp) =
     (case spec_pair_size w fp of
        Some n \<Rightarrow> Inr n
      | None \<Rightarrow> (case stat_size w (image_path fp) of
                   None \<Rightarrow> Inl (StatError (image_path fp))
                 | Some a \<Rightarrow> Inl (StatError (manifest fp))))"
  by (simp add: filePairSize_def spec_pair_size_def stat_def io_return_def split: option.splits)

text \<open>The invariant of the loop, for any values of its two variables.\<close>

lemma loop_result:
  "fst (getBundleRange_loop w tot cnt fps) = Inr r \<Longrightarrow> tot < BUNDLE_SIZE_BYTE_LIMIT \<Longrightarrow>
   \<exists>k ns. count r = cnt + k \<and> k \<le> length fps
     \<and> map (spec_pair_size w) (take k fps) = map Some ns
     \<and> size_bytes r = tot + sum_list ns
     \<and> size_bytes r < BUNDLE_SIZE_BYTE_LIMIT
     \<and> (k < length fps \<longrightarrow>
          (\<exists>n. spec_pair_size w (fps ! k) = Some n \<and> BUNDLE_SIZE_BYTE_LIMIT \<le> size_bytes r + n))
     \<and> (fps \<noteq> [] \<longrightarrow> 0 < cnt + k)"
proof (induction fps arbitrary: tot cnt)
  case Nil
  then show ?case by (auto simp: io_return_def)
next
  case (Cons fp rest)
  from Cons.prems(1) obtain n where n: "spec_pair_size w fp = Some n"
    by (auto simp: fst_io_bind fst_filePairSize split: option.splits sum.splits)
  show ?case
  proof (cases "BUNDLE_SIZE_BYTE_LIMIT \<le> tot + n")
    case True
    with Cons.prems n have "cnt \<noteq> 0" and "r = \<lparr>count = cnt, size_bytes = tot\<rparr>"
      by (auto simp: fst_io_bind fst_filePairSize io_return_def io_throw_def split: if_splits)
    with True n Cons.prems(2) show ?thesis
      by (intro exI[of _ 0] exI[of _ "[]"]) simp
  next
    case False
    with Cons.prems n have rec: "fst (getBundleRange_loop w (tot + n) (cnt + 1) rest) = Inr r"
      by (auto simp: fst_io_bind fst_filePairSize)
    from False have "tot + n < BUNDLE_SIZE_BYTE_LIMIT" by simp
    from Cons.IH[OF rec this] obtain k ns where
      k: "count r = cnt + 1 + k" "k \<le> length rest"
         "map (spec_pair_size w) (take k rest) = map Some ns"
         "size_bytes r = tot + n + sum_list ns"
         "size_bytes r < BUNDLE_SIZE_BYTE_LIMIT"
         "k < length rest \<longrightarrow>
            (\<exists>m. spec_pair_size w (rest ! k) = Some m \<and> BUNDLE_SIZE_BYTE_LIMIT \<le> size_bytes r + m)"
      by blast
    show ?thesis
      using k n by (intro exI[of _ "Suc k"] exI[of _ "n # ns"]) simp
  qed
qed

lemma getBundleRange_result:
  assumes "fst (getBundleRange w fps) = Inr r"
  shows "count r \<le> length fps
     \<and> (\<exists>ns. map (spec_pair_size w) (take (count r) fps) = map Some ns \<and> size_bytes r = sum_list ns)
     \<and> size_bytes r < BUNDLE_SIZE_BYTE_LIMIT
     \<and> (count r < length fps \<longrightarrow>
          (\<exists>n. spec_pair_size w (fps ! count r) = Some n
             \<and> BUNDLE_SIZE_BYTE_LIMIT \<le> size_bytes r + n))
     \<and> (fps \<noteq> [] \<longrightarrow> 0 < count r)"
proof -
  have "(0::nat) < BUNDLE_SIZE_BYTE_LIMIT" by (simp add: BUNDLE_SIZE_BYTE_LIMIT_def)
  from loop_result[OF assms[unfolded getBundleRange_def] this] show ?thesis by auto
qed

text \<open>A range is returned whenever every file can be measured and the first pair is
  below the limit.\<close>

lemma loop_returns:
  "list_all (\<lambda>fp. spec_pair_size w fp \<noteq> None) fps \<Longrightarrow>
   (cnt = 0 \<Longrightarrow> (case fps of [] \<Rightarrow> True
      | fp # _ \<Rightarrow> (\<exists>n. spec_pair_size w fp = Some n \<and> tot + n < BUNDLE_SIZE_BYTE_LIMIT))) \<Longrightarrow>
   \<exists>r. fst (getBundleRange_loop w tot cnt fps) = Inr r"
proof (induction fps arbitrary: tot cnt)
  case Nil
  then show ?case by (simp add: io_return_def)
next
  case (Cons fp rest)
  from Cons.prems(1) obtain n where n: "spec_pair_size w fp = Some n" by auto
  show ?case
  proof (cases "BUNDLE_SIZE_BYTE_LIMIT \<le> tot + n")
    case True
    with Cons.prems(2) n have "cnt \<noteq> 0" by auto
    with True n show ?thesis
      by (simp add: fst_io_bind fst_filePairSize io_return_def)
  next
    case False
    from Cons.prems(1) have "list_all (\<lambda>fp. spec_pair_size w fp \<noteq> None) rest" by simp
    from Cons.IH[OF this, of "cnt + 1" "tot + n"]
    obtain r where "fst (getBundleRange_loop w (tot + n) (cnt + 1) rest) = Inr r" by auto
    with False n show ?thesis
      by (simp add: fst_io_bind fst_filePairSize)
  qed
qed

lemma getBundleRange_returns:
  "list_all (\<lambda>fp. spec_pair_size w fp \<noteq> None) fps \<Longrightarrow>
   (case fps of [] \<Rightarrow> True
      | fp # _ \<Rightarrow> (\<exists>n. spec_pair_size w fp = Some n \<and> n < BUNDLE_SIZE_BYTE_LIMIT)) \<Longrightarrow>
   \<exists>r. fst (getBundleRange w fps) = Inr r"
  unfolding getBundleRange_def by (rule loop_returns) (auto split: list.splits)

text \<open>The range of the three demo pairs.\<close>

lemma demo_pair_size:
  "i \<in> {''0'', ''1'', ''2''} \<Longrightarrow> spec_pair_size demo_world (demo_pair i) = Some 20000285"
  by (auto simp: spec_pair_size_def demo_world_def demo_pair_def demo_manifest_def
      dummy_size_value quote_def quote_char_def)

lemma demo_range:
  "fst (getBundleRange demo_world [demo_pair ''0'', demo_pair ''1'', demo_pair ''2''])
     = Inr \<lparr>count = 2, size_bytes = 40000570\<rparr>"
  by (simp add: getBundleRange_def fst_io_bind fst_filePairSize demo_pair_size
      BUNDLE_SIZE_BYTE_LIMIT_def io_return_def)

lemma big_pair_size: "spec_pair_size big_world (demo_pair ''0'') = Some 60000285"
  by (simp add: spec_pair_size_def big_world_def demo_world_def demo_pair_def demo_manifest_def
      dummy_size_value quote_def quote_char_def)

lemma big_range:
  "fst (getBundleRange big_world [demo_pair ''0'', demo_pair ''1'', demo_pair ''2''])
     = Inl (FilePairTooBig ''0'' 60000285)"
proof -
  have "key (demo_pair ''0'') = ''0''" by (simp add: demo_pair_def)
  then show ?thesis
    by (simp add: getBundleRange_def fst_io_bind fst_filePairSize big_pair_size
        BUNDLE_SIZE_BYTE_LIMIT_def io_throw_def)
qed

text \<open>
  C1. As stated the claim fails: for the list whose first pair is 60 MB, adding the
  first pair to the empty total meets the limit, and \<open>getBundleRange\<close> does not return
  the current count and size, which are both 0, but throws.
\<close>

theorem first_pair_over_limit_returns_no_range:
  "spec_pair_size big_world (demo_pair ''0'') = Some 60000285
   \<and> BUNDLE_SIZE_BYTE_LIMIT \<le> 0 + 60000285
   \<and> fst (getBundleRange big_world [demo_pair ''0'', demo_pair ''1'', demo_pair ''2''])
       = Inl (FilePairTooBig ''0'' 60000285)
   \<and> fst (getBundleRange big_world [demo_pair ''0'', demo_pair ''1'', demo_pair ''2''])
       \<noteq> Inr \<lparr>count = 0, size_bytes = 0\<rparr>"
  using big_range big_pair_size by (simp add: BUNDLE_SIZE_BYTE_LIMIT_def)

text \<open>
  C1, amended. Whenever \<open>getBundleRange\<close> returns a range for a list of pairs, the range
  is the greedy prefix of the list in the order supplied: \<open>count\<close> is at most the length
  of the list; \<open>size\<close> is the sum, over the first \<open>count\<close> pairs, of the size of the image
  file plus the size of the manifest file plus \<open>dummyAreaveManifestByteSize\<close> (the byte
  length of the JSON text of the dummy path manifest, a constant); that sum is below
  \<open>BUNDLE_SIZE_BYTE_LIMIT = 50 * 1024 * 1024\<close>; and when pairs are left over, adding the
  next pair would meet or exceed the limit. A range is returned whenever every file can
  be measured and the first pair alone is below the limit.
\<close>

theorem getBundleRange_greedy_prefix:
  "(fst (getBundleRange w fps) = Inr r \<longrightarrow>
      count r \<le> length fps
    \<and> (\<exists>ns. map (spec_pair_size w) (take (count r) fps) = map Some ns \<and> size_bytes r = sum_list ns)
    \<and> size_bytes r < BUNDLE_SIZE_BYTE_LIMIT
    \<and> (count r < length fps \<longrightarrow>
          (\<exists>n. spec_pair_size w (fps ! count r) = Some n
             \<and> BUNDLE_SIZE_BYTE_LIMIT \<le> size_bytes r + n)))
   \<and> (list_all (\<lambda>fp. spec_pair_size w fp \<noteq> None) fps \<longrightarrow>
        (case fps of [] \<Rightarrow> True
         | fp # _ \<Rightarrow> (\<exists>n. spec_pair_size w fp = Some n \<and> n < BUNDLE_SIZE_BYTE_LIMIT)) \<longrightarrow>
        (\<exists>r'. fst (getBundleRange w fps) = Inr r'))
   \<and> BUNDLE_SIZE_BYTE_LIMIT = 50 * 1024 * 1024
   \<and> dummyAreaveManifestByteSize =
         length (JSON_stringify (createArweavePathManifest
           ''akBSbAEWTf6xDDnrG_BHKaxXjxoGuBnuhMnoYKUCDZo''
           ''akBSbAEWTf6xDDnrG_BHKaxXjxoGuBnuhMnoYKUCDZo'' ''.png''))"
proof (intro conjI impI)
  assume "fst (getBundleRange w fps) = Inr r"
  from getBundleRange_result[OF this]
  show "count r \<le> length fps"
    and "\<exists>ns. map (spec_pair_size w) (take (count r) fps) = map Some ns \<and> size_bytes r = sum_list ns"
    and "size_bytes r < BUNDLE_SIZE_BYTE_LIMIT"
    and "count r < length fps \<Longrightarrow>
          \<exists>n. spec_pair_size w (fps ! count r) = Some n
             \<and> BUNDLE_SIZE_BYTE_LIMIT \<le> size_bytes r + n"
    by blast+
next
  assume "list_all (\<lambda>fp. spec_pair_size w fp \<noteq> None) fps"
    and "case fps of [] \<Rightarrow> True
         | fp # _ \<Rightarrow> (\<exists>n. spec_pair_size w fp = Some n \<and> n < BUNDLE_SIZE_BYTE_LIMIT)"
  then show "\<exists>r'. fst (getBundleRange w fps) = Inr r'" by (rule getBundleRange_returns)
next
  show "BUNDLE_SIZE_BYTE_LIMIT = 50 * 1024 * 1024" by (simp add: BUNDLE_SIZE_BYTE_LIMIT_def)
  show "dummyAreaveManifestByteSize =
         length (JSON_stringify (createArweavePathManifest
           ''akBSbAEWTf6xDDnrG_BHKaxXjxoGuBnuhMnoYKUCDZo''
           ''akBSbAEWTf6xDDnrG_BHKaxXjxoGuBnuhMnoYKUCDZo'' ''.png''))"
    by (simp add: dummyAreaveManifestByteSize_def)
qed

theorem getBundleRange_greedy_prefix_witness:
  "fst (getBundleRange demo_world [demo_pair ''0'', demo_pair ''1'', demo_pair ''2''])
     = Inr \<lparr>count = 2, size_bytes = 40000570\<rparr>
   \<and> list_all (\<lambda>fp. spec_pair_size demo_world fp \<noteq> None)
        [demo_pair ''0'', demo_pair ''1'', demo_pair ''2'']
   \<and> (\<exists>ns. map (spec_pair_size demo_world) [demo_pair ''0'', demo_pair ''1''] = map Some ns
          \<and> 40000570 = sum_list ns)
   \<and> (\<exists>n. spec_pair_size demo_world (demo_pair ''2'') = Some n
          \<and> BUNDLE_SIZE_BYTE_LIMIT \<le> 40000570 + n)"
  using getBundleRange_greedy_prefix[of demo_world
      "[demo_pair ''0'', demo_pair ''1'', demo_pair ''2'']" "\<lparr>count = 2, size_bytes = 40000570\<rparr>"]
    demo_range
  by (simp add: demo_pair_size)

text \<open>
  C2. When the size of the first pair (image file plus manifest file plus the overhead)
  meets or exceeds the limit, \<open>getBundleRange\<close> throws the error that names the key of
  that pair and its size, and returns no range; and a range returned for a list that is
  not empty never has \<open>count = 0\<close>.
\<close>

theorem getBundleRange_first_pair_too_big:
  assumes "stat_size w (image_path fp) = Some a" and "stat_size w (manifest fp) = Some b"
    and "BUNDLE_SIZE_BYTE_LIMIT \<le> dummyAreaveManifestByteSize + a + b"
  shows "fst (getBundleRange w (fp # rest))
           = Inl (FilePairTooBig (key fp) (dummyAreaveManifestByteSize + a + b))
     \<and> (fps \<noteq> [] \<longrightarrow> fst (getBundleRange w fps) = Inr r \<longrightarrow> count r \<noteq> 0)"
proof
  from assms(1,2) have "spec_pair_size w fp = Some (dummyAreaveManifestByteSize + a + b)"
    by (simp add: spec_pair_size_def)
  with assms(3) show "fst (getBundleRange w (fp # rest))
      = Inl (FilePairTooBig (key fp) (dummyAreaveManifestByteSize + a + b))"
    by (simp add: getBundleRange_def fst_io_bind fst_filePairSize io_throw_def)
next
  show "fps \<noteq> [] \<longrightarrow> fst (getBundleRange w fps) = Inr r \<longrightarrow> count r \<noteq> 0"
    using getBundleRange_result[of w fps r] by auto
qed

theorem getBundleRange_first_pair_too_big_witness:
  "stat_size big_world (image_path (demo_pair ''0'')) = Some 60000000
   \<and> stat_size big_world (manifest (demo_pair ''0'')) = Some 62
   \<and> BUNDLE_SIZE_BYTE_LIMIT \<le> dummyAreaveManifestByteSize + 60000000 + 62
   \<and> fst (getBundleRange big_world [demo_pair ''0'', demo_pair ''1''])
       = Inl (FilePairTooBig ''0'' 60000285)
   \<and> count \<lparr>count = 2, size_bytes = 40000570\<rparr> \<noteq> 0"
proof -
  have a: "stat_size big_world (image_path (demo_pair ''0'')) = Some 60000000"
    by (simp add: big_world_def demo_pair_def)
  have b: "stat_size big_world (manifest (demo_pair ''0'')) = Some 62"
    by (simp add: big_world_def demo_world_def demo_pair_def demo_manifest_def
        quote_def quote_char_def)
  have c: "BUNDLE_SIZE_BYTE_LIMIT \<le> dummyAreaveManifestByteSize + 60000000 + 62"
    by (simp add: BUNDLE_SIZE_BYTE_LIMIT_def dummy_size_value)
  show ?thesis
    using getBundleRange_first_pair_too_big[OF a b c,
        of "[demo_pair ''1'']" "[demo_pair ''0'', demo_pair ''1'', demo_pair ''2'']"
           "\<lparr>count = 2, size_bytes = 40000570\<rparr>"]
      a b c
    by (simp add: dummy_size_value demo_pair_def)
qed

text \<open>
  C3. A range returned for a list that is not empty has \<open>count \<ge> 1\<close>, and a returned
  range with \<open>count > 1\<close> has a size strictly below the limit. (By
  \<open>getBundleRange_result\<close> the size of every returned range is below the limit, also
  when \<open>count = 1\<close>.)
\<close>

theorem getBundleRange_count_and_size:
  assumes "fst (getBundleRange w fps) = Inr r"
  shows "(fps \<noteq> [] \<longrightarrow> 1 \<le> count r) \<and> (1 < count r \<longrightarrow> size_bytes r < BUNDLE_SIZE_BYTE_LIMIT)"
proof -
  from getBundleRange_result[OF assms]
  have "fps \<noteq> [] \<longrightarrow> 0 < count r" and "size_bytes r < BUNDLE_SIZE_BYTE_LIMIT"
    by blast+
  then show ?thesis by (simp add: Suc_le_eq)
qed

theorem getBundleRange_count_and_size_witness:
  "fst (getBundleRange demo_world [demo_pair ''0'', demo_pair ''1'', demo_pair ''2''])
     = Inr \<lparr>count = 2, size_bytes = 40000570\<rparr>
   \<and> (1::nat) < 2 \<and> (40000570::nat) < BUNDLE_SIZE_BYTE_LIMIT"
  using getBundleRange_count_and_size[OF demo_range] demo_range by simp

subsection \<open>Processing one pair and one bundle\<close>

lemma fst_sign:
  "fst (sign w d s) = (case sign_id w s (rawData d) (tags d) of
                         None \<Rightarrow> Inl SignError | Some i \<Rightarrow> Inr (d\<lparr>id_tx := i\<rparr>))"
  by (simp add: sign_def split: option.splits)

lemma snd_sign: "snd (sign w d s) = [EvSign d]"
  by (simp add: sign_def split: option.splits)

lemma fst_read_file:
  "fst (read_file w f) = (case readFile w f of None \<Rightarrow> Inl (ReadFileError f) | Some b \<Rightarrow> Inr b)"
  by (simp add: read_file_def split: option.splits)

lemma snd_read_file: "snd (read_file w f) = [EvReadFile f]"
  by (simp add: read_file_def split: option.splits)

lemma snd_getUpdatedManifest: "snd (getUpdatedManifest w f l ct) = [EvReadFile f]"
  by (simp add: getUpdatedManifest_def snd_io_bind snd_read_file fst_read_file io_throw_def io_return_def
      split: option.splits sum.splits)

text \<open>\<open>createData\<close> throws on the tags of an image of unknown media type and on no
  other tags of the file.\<close>

lemma createData_tags:
  "createData b s (imageTags @ [(''Content-Type'', Some ct)]) =
     Inr \<lparr>rawData = b, tags = imageTags @ [(''Content-Type'', Some ct)], id_tx = []\<rparr>"
  "createData b s (imageTags @ [(''Content-Type'', None)]) = Inl TagFormatError"
  "createData b s manifestTags = Inr \<lparr>rawData = b, tags = manifestTags, id_tx = []\<rparr>"
  "createData b s arweavePathManifestTags =
     Inr \<lparr>rawData = b, tags = arweavePathManifestTags, id_tx = []\<rparr>"
  by (simp_all add: createData_def imageTags_def manifestTags_def arweavePathManifestTags_def
      BASE_TAGS_def)

lemma snd_getImageDataItem: "snd (getImageDataItem w s f ct) = [EvReadFile f]"
  by (simp add: getImageDataItem_def snd_io_bind snd_read_file fst_read_file io_of_def
      split: option.splits sum.splits)

lemma processBundleFilePair_no_submission:
  "\<not> list_ex is_submission (snd (processBundleFilePair w s acc fp))"
  by (simp add: processBundleFilePair_def Let_def snd_io_bind snd_sign snd_getUpdatedManifest
      snd_getImageDataItem io_return_def io_of_def split: sum.splits)

lemma fst_getImageDataItem:
  "fst (getImageDataItem w s f ct) =
     (case readFile w f of
        None \<Rightarrow> Inl (ReadFileError f)
      | Some b \<Rightarrow> createData b s (imageTags @ [(''Content-Type'', ct)]))"
  by (simp add: getImageDataItem_def fst_io_bind fst_read_file io_of_def split: option.splits)

lemma processBundleFilePair_Inr:
  assumes "fst (processBundleFilePair w s acc fp) = Inr acc'"
  shows "\<exists>b i1 m i2 i3.
      readFile w (image_path fp) = Some b
    \<and> getType w (image_path fp) \<noteq> None
    \<and> sign_id w s b (imageTags @ [(''Content-Type'', getType w (image_path fp))]) = Some i1
    \<and> fst (getUpdatedManifest w (manifest fp) (''https://arweave.net/'' @ i1)
             (getType w (image_path fp))) = Inr m
    \<and> sign_id w s (JSON_stringify m) manifestTags = Some i2
    \<and> sign_id w s (JSON_stringify (createArweavePathManifest i1 i2
             (''.'' @ js_str (getExtension w (getType w (image_path fp))))))
          arweavePathManifestTags = Some i3
    \<and> acc' = acc
         \<lparr>cacheKeys := cacheKeys acc @ [key fp],
          dataItems := dataItems acc @
            [\<lparr>rawData = b,
              tags = imageTags @ [(''Content-Type'', getType w (image_path fp))],
              id_tx = i1\<rparr>,
             \<lparr>rawData = JSON_stringify m, tags = manifestTags, id_tx = i2\<rparr>,
             \<lparr>rawData = JSON_stringify (createArweavePathManifest i1 i2
                  (''.'' @ js_str (getExtension w (getType w (image_path fp))))),
              tags = arweavePathManifestTags, id_tx = i3\<rparr>],
          arweavePathManifestLinks := arweavePathManifestLinks acc @ [''https://arweave.net/'' @ i2],
          updatedManifests := updatedManifests acc @ [m]\<rparr>"
proof (cases "getType w (image_path fp)")
  case None
  with assms show ?thesis
    by (simp add: processBundleFilePair_def Let_def fst_io_bind fst_getImageDataItem
        createData_tags split: option.splits)
next
  case (Some ct)
  with assms show ?thesis
    by (auto simp: processBundleFilePair_def Let_def fst_io_bind fst_sign io_return_def io_of_def
        fst_getImageDataItem getManifestDataItem_def getArweavePathManifestDataItem_def
        createData_tags split: sum.splits option.splits)
qed

lemma reduce_pairs_Inr:
  "fst (reduce_pairs w s acc fps) = Inr acc' \<Longrightarrow>
   cacheKeys acc' = cacheKeys acc @ map key fps"
proof (induction fps arbitrary: acc)
  case Nil
  then show ?case by (simp add: io_return_def)
next
  case (Cons fp fps)
  from Cons.prems obtain acc1 where
    1: "fst (processBundleFilePair w s acc fp) = Inr acc1"
    and 2: "fst (reduce_pairs w s acc1 fps) = Inr acc'"
    by (auto simp: fst_io_bind split: sum.splits)
  from processBundleFilePair_Inr[OF 1] have "cacheKeys acc1 = cacheKeys acc @ [key fp]" by auto
  with Cons.IH[OF 2] show ?case by simp
qed

lemma reduce_pairs_no_submission:
  "\<not> list_ex is_submission (snd (reduce_pairs w s acc fps))"
proof (induction fps arbitrary: acc)
  case Nil
  then show ?case by (simp add: io_return_def)
next
  case (Cons fp fps)
  then show ?case
    using processBundleFilePair_no_submission[of w s acc fp]
    by (simp add: snd_io_bind split: sum.splits)
qed

lemma snd_processBundle:
  "snd (processBundle w c r) = c\<lparr>filePairs := drop (count r) (filePairs c)\<rparr>"
  by (simp add: processBundle_def Let_def)

lemma processBundle_Inr:
  assumes "fst (fst (processBundle w c r)) = Inr res"
  shows "cacheKeys res = map key (take (count r) (filePairs c))"
proof -
  from assms obtain acc where
    acc: "fst (reduce_pairs w (signer c) empty_acc (take (count r) (filePairs c))) = Inr acc"
    and res: "cacheKeys res = cacheKeys acc"
    by (auto simp: processBundle_def Let_def fst_io_bind io_return_def split: sum.splits)
  from reduce_pairs_Inr[OF acc] res show ?thesis by (simp add: empty_acc_def)
qed

lemma processBundle_pairs_fail:
  assumes "fst (reduce_pairs w (signer c) empty_acc (take (count r) (filePairs c))) = Inl e"
  shows "fst (fst (processBundle w c r)) = Inl e
     \<and> \<not> list_ex is_submission (snd (fst (processBundle w c r)))"
  using assms reduce_pairs_no_submission[of w "signer c" empty_acc "take (count r) (filePairs c)"]
  by (simp add: processBundle_def Let_def fst_io_bind snd_io_bind)

subsection \<open>One resumption of the loop\<close>

lemma resume_loop_empty:
  "filePairs c = [] \<Longrightarrow> resume w (SuspendedYield c) = (Done, Completed, [])"
  by simp

lemma resume_loop_range_fails:
  "filePairs c \<noteq> [] \<Longrightarrow> fst (getBundleRange w (filePairs c)) = Inl e \<Longrightarrow>
   resume w (SuspendedYield c) = (Yielded (Inl e), SuspendedYield c, snd (getBundleRange w (filePairs c)))"
  by (cases "getBundleRange w (filePairs c)") simp

lemma resume_loop_range:
  "filePairs c \<noteq> [] \<Longrightarrow> fst (getBundleRange w (filePairs c)) = Inr r \<Longrightarrow>
   resume w (SuspendedYield c) =
     (Yielded (fst (fst (processBundle w c r))),
      SuspendedYield (c\<lparr>filePairs := drop (count r) (filePairs c)\<rparr>),
      snd (getBundleRange w (filePairs c)) @ snd (fst (processBundle w c r)))"
  using snd_processBundle[of w c r]
  by (cases "getBundleRange w (filePairs c)"; cases "processBundle w c r") (auto split: prod.splits)

lemma resume_loop_Done: "fst (resume w (SuspendedYield c)) = Done \<longleftrightarrow> filePairs c = []"
  by (cases "getBundleRange w (filePairs c)"; cases "processBundle w c (projr (fst (getBundleRange w (filePairs c))))")
     (auto split: prod.splits sum.splits)


subsection \<open>Sequences of resumptions\<close>

lemma resumptions_Completed:
  "resumptions w n Completed = (replicate n Done, Completed, [])"
  by (induction n) simp_all

lemma fulfilled_replicate_Done: "fulfilled (replicate n Done) = []"
  by (induction n) simp_all

lemma resumptions_Suc_split:
  assumes "resumptions w (Suc n) st0 = (rs, st, t)"
  obtains r st1 t1 rs' t' where "resume w st0 = (r, st1, t1)"
    and "resumptions w n st1 = (rs', st, t')" and "rs = r # rs'" and "t = t1 @ t'"
  using assms by (auto split: prod.splits)

lemma loop_keys:
  "resumptions w n (SuspendedYield c) = (rs, st, t) \<Longrightarrow> \<forall>r\<in>set rs. \<not> failed r \<Longrightarrow>
   Done \<in> set rs \<Longrightarrow> concat (map cacheKeys (fulfilled rs)) = map key (filePairs c)"
proof (induction n arbitrary: c rs st t)
  case 0
  then show ?case by simp
next
  case (Suc n)
  from Suc.prems(1) obtain r st1 t1 rs' t' where
    step: "resume w (SuspendedYield c) = (r, st1, t1)"
    and rest: "resumptions w n st1 = (rs', st, t')" and rs: "rs = r # rs'"
    by (rule resumptions_Suc_split)
  show ?case
  proof (cases "filePairs c = []")
    case True
    with step have "r = Done" "st1 = Completed" by simp_all
    with rest rs True show ?thesis
      by (auto simp: resumptions_Completed fulfilled_replicate_Done)
  next
    case False
    show ?thesis
    proof (cases "fst (getBundleRange w (filePairs c))")
      case (Inl e)
      with False step have "r = Yielded (Inl e)"
        by (simp add: resume_loop_range_fails del: resume.simps)
      with Suc.prems(2) rs show ?thesis by simp
    next
      case (Inr br)
      from resume_loop_range[OF False Inr] step
      have r: "r = Yielded (fst (fst (processBundle w c br)))"
        and st1: "st1 = SuspendedYield (c\<lparr>filePairs := drop (count br) (filePairs c)\<rparr>)"
        by simp_all
      from Suc.prems(2) rs r obtain res where res: "fst (fst (processBundle w c br)) = Inr res"
        by (cases "fst (fst (processBundle w c br))") auto
      from Suc.prems(3) rs r have "Done \<in> set rs'" by simp
      moreover from Suc.prems(2) rs have "\<forall>r\<in>set rs'. \<not> failed r" by simp
      ultimately have "concat (map cacheKeys (fulfilled rs')) = map key (drop (count br) (filePairs c))"
        using Suc.IH[OF rest[unfolded st1]] by simp
      with processBundle_Inr[OF res] rs r res show ?thesis
        by (simp flip: map_append)
    qed
  qed
qed

lemma loop_done:
  "resumptions w n (SuspendedYield c) = (rs, st, t) \<Longrightarrow> \<forall>r\<in>set rs. \<not> failed r \<Longrightarrow>
   length (filePairs c) < n \<Longrightarrow> Done \<in> set rs"
proof (induction n arbitrary: c rs st t)
  case 0
  then show ?case by simp
next
  case (Suc n)
  from Suc.prems(1) obtain r st1 t1 rs' t' where
    step: "resume w (SuspendedYield c) = (r, st1, t1)"
    and rest: "resumptions w n st1 = (rs', st, t')" and rs: "rs = r # rs'"
    by (rule resumptions_Suc_split)
  show ?case
  proof (cases "filePairs c = []")
    case True
    with step rs show ?thesis by simp
  next
    case False
    show ?thesis
    proof (cases "fst (getBundleRange w (filePairs c))")
      case (Inl e)
      with False step have "r = Yielded (Inl e)"
        by (simp add: resume_loop_range_fails del: resume.simps)
      with Suc.prems(2) rs show ?thesis by simp
    next
      case (Inr br)
      from resume_loop_range[OF False Inr] step
      have st1: "st1 = SuspendedYield (c\<lparr>filePairs := drop (count br) (filePairs c)\<rparr>)"
        by simp
      from getBundleRange_result[OF Inr] False have "0 < count br" by blast
      with False Suc.prems(3) have "length (drop (count br) (filePairs c)) < n" by (cases "filePairs c") auto
      moreover from Suc.prems(2) rs have "\<forall>r\<in>set rs'. \<not> failed r" by simp
      ultimately have "Done \<in> set rs'"
        using Suc.IH[OF rest[unfolded st1]] by simp
      with rs show ?thesis by simp
    qed
  qed
qed

lemma loop_later_keys:
  "resumptions w n (SuspendedYield c) = (rs, st, t) \<Longrightarrow>
   subseq (concat (map cacheKeys (fulfilled rs))) (map key (filePairs c))
   \<and> (st = Completed \<or> (\<exists>c'. st = SuspendedYield c' \<and> suffix (filePairs c') (filePairs c)))"
proof (induction n arbitrary: c rs st t)
  case 0
  then show ?case by auto
next
  case (Suc n)
  from Suc.prems(1) obtain r st1 t1 rs' t' where
    step: "resume w (SuspendedYield c) = (r, st1, t1)"
    and rest: "resumptions w n st1 = (rs', st, t')" and rs: "rs = r # rs'"
    by (rule resumptions_Suc_split)
  show ?case
  proof (cases "filePairs c = []")
    case True
    with step have "r = Done" "st1 = Completed" by simp_all
    with rest rs True show ?thesis
      by (auto simp: resumptions_Completed fulfilled_replicate_Done)
  next
    case False
    show ?thesis
    proof (cases "fst (getBundleRange w (filePairs c))")
      case (Inl e)
      with False step have "r = Yielded (Inl e)" "st1 = SuspendedYield c"
        by (simp_all add: resume_loop_range_fails del: resume.simps)
      with Suc.IH[OF rest[unfolded this(2)]] rs show ?thesis by simp
    next
      case (Inr br)
      let ?q = "filePairs c"
      from resume_loop_range[OF False Inr] step
      have r: "r = Yielded (fst (fst (processBundle w c br)))"
        and st1: "st1 = SuspendedYield (c\<lparr>filePairs := drop (count br) ?q\<rparr>)"
        by simp_all
      from Suc.IH[OF rest[unfolded st1]]
      have sub: "subseq (concat (map cacheKeys (fulfilled rs'))) (map key (drop (count br) ?q))"
        and suf: "st = Completed \<or> (\<exists>c'. st = SuspendedYield c' \<and> suffix (filePairs c') (drop (count br) ?q))"
        by simp_all
      have q: "map key ?q = map key (take (count br) ?q) @ map key (drop (count br) ?q)"
        by (simp flip: map_append)
      have 1: "subseq (concat (map cacheKeys (fulfilled rs))) (map key ?q)"
      proof (cases "fst (fst (processBundle w c br))")
        case (Inl e)
        with rs r have "fulfilled rs = fulfilled rs'" by simp
        with sub show ?thesis by (subst q) (simp add: list_emb_append2)
      next
        case (Inr res)
        with rs r processBundle_Inr[OF Inr]
        have "concat (map cacheKeys (fulfilled rs))
              = map key (take (count br) ?q) @ concat (map cacheKeys (fulfilled rs'))"
          by simp
        with sub show ?thesis by (subst q) (simp add: list_emb_append_mono)
      qed
      have 2: "st = Completed \<or> (\<exists>c'. st = SuspendedYield c' \<and> suffix (filePairs c') ?q)"
        using suf suffix_drop[of "count br" ?q] by (auto intro: suffix_order.trans)
      from 1 2 show ?thesis by simp
    qed
  qed
qed


subsection \<open>When processing succeeds and when the manifest is rejected\<close>

lemma processBundleFilePair_succeeds:
  assumes "readFile w (image_path fp) \<noteq> None"
    and "\<forall>b ts. sign_id w s b ts \<noteq> None"
    and "\<forall>l. \<exists>m. fst (getUpdatedManifest w (manifest fp) l (getType w (image_path fp))) = Inr m"
    and "getType w (image_path fp) \<noteq> None"
  shows "\<exists>acc'. fst (processBundleFilePair w s acc fp) = Inr acc'"
proof -
  from assms(4) obtain ct where ct: "getType w (image_path fp) = Some ct" by auto
  from assms(1) obtain b where b: "readFile w (image_path fp) = Some b" by auto
  from assms(2) obtain i1 where
    i1: "sign_id w s b (imageTags @ [(''Content-Type'', Some ct)]) = Some i1" by auto
  from assms(3) ct obtain m where
    m: "fst (getUpdatedManifest w (manifest fp) (''https://arweave.net/'' @ i1) (Some ct)) = Inr m"
    by metis
  from assms(2) obtain i2 where i2: "sign_id w s (JSON_stringify m) manifestTags = Some i2"
    by auto
  from assms(2) obtain i3 where
    i3: "sign_id w s (JSON_stringify (createArweavePathManifest i1 i2
           (''.'' @ js_str (getExtension w (Some ct))))) arweavePathManifestTags = Some i3"
    by auto
  show ?thesis
    using ct b i1 m i2 i3
    by (simp add: processBundleFilePair_def Let_def fst_io_bind fst_getImageDataItem fst_sign
        io_return_def io_of_def getManifestDataItem_def getArweavePathManifestDataItem_def
        createData_tags)
qed

lemma reduce_pairs_succeeds:
  assumes "\<forall>b ts. sign_id w s b ts \<noteq> None"
  shows "\<forall>fp\<in>set fps. readFile w (image_path fp) \<noteq> None
           \<and> getType w (image_path fp) \<noteq> None
           \<and> (\<forall>l. \<exists>m. fst (getUpdatedManifest w (manifest fp) l (getType w (image_path fp))) = Inr m)
     \<Longrightarrow> \<exists>acc'. fst (reduce_pairs w s acc fps) = Inr acc'"
proof (induction fps arbitrary: acc)
  case Nil
  then show ?case by (simp add: io_return_def)
next
  case (Cons fp fps)
  from Cons.prems assms obtain acc1 where "fst (processBundleFilePair w s acc fp) = Inr acc1"
    using processBundleFilePair_succeeds[of w fp s acc] by auto
  moreover from Cons.IH[of acc1] Cons.prems
  obtain acc2 where "fst (reduce_pairs w s acc1 fps) = Inr acc2" by auto
  ultimately show ?case by (simp add: fst_io_bind)
qed

lemma fst_upload_items:
  "\<forall>d\<in>set ds. upload_tx w d \<Longrightarrow> fst (upload_items w ds) = Inr ()"
  by (induction ds) (simp_all add: io_return_def fst_io_bind upload_item_def)

lemma processBundle_succeeds:
  assumes "\<forall>b ts. sign_id w (signer c) b ts \<noteq> None"
    and "\<forall>fp\<in>set (take (count r) (filePairs c)). readFile w (image_path fp) \<noteq> None
           \<and> getType w (image_path fp) \<noteq> None
           \<and> (\<forall>l. \<exists>m. fst (getUpdatedManifest w (manifest fp) l (getType w (image_path fp))) = Inr m)"
    and "storageType c = ArweaveSol \<longrightarrow> walletKeyPair (params c) \<noteq> None
           \<and> (\<forall>n. getStorageCost w n \<noteq> None) \<and> (\<forall>x. fund w x) \<and> (\<forall>d. upload_tx w d)"
    and "storageType c = ArweaveBundle \<longrightarrow> (\<forall>ds. post_bundle w ds)"
  shows "\<exists>res. fst (fst (processBundle w c r)) = Inr res"
proof -
  from reduce_pairs_succeeds[OF assms(1), of "take (count r) (filePairs c)" empty_acc] assms(2)
  obtain acc where
    acc: "fst (reduce_pairs w (signer c) empty_acc (take (count r) (filePairs c))) = Inr acc"
    by blast
  show ?thesis
  proof (cases "storageType c")
    case ArweaveBundle
    with assms(4) acc show ?thesis
      by (simp add: processBundle_def Let_def fst_io_bind io_return_def post_items_def)
  next
    case ArweaveSol
    with assms(3) obtain kp where kp: "walletKeyPair (params c) = Some kp" by auto
    from ArweaveSol assms(3) have up: "fst (upload_items w (dataItems acc)) = Inr ()"
      by (simp add: fst_upload_items)
    from ArweaveSol assms(3)
    obtain cost where
      "getStorageCost w (foldl (\<lambda>b d. b + data_length w (rawData d)) 0 (dataItems acc)) = Some cost"
      by (metis option.exhaust)
    with ArweaveSol assms(3) acc kp up show ?thesis
      by (simp add: processBundle_def Let_def fst_io_bind io_return_def storage_cost_def
          fund_account_def)
  next
    case OtherStorage
    with acc show ?thesis
      by (simp add: processBundle_def Let_def fst_io_bind io_return_def)
  qed
qed


lemma map_of_assign: "map_of (assign k v ps) k' = (if k' = k then Some v else map_of ps k')"
  by (induction ps) auto

lemma getUpdatedManifest_fails_iff:
  "(\<exists>e. fst (getUpdatedManifest w f l ct) = Inl e) \<longleftrightarrow> metadata_unusable w f"
proof (cases "readFile w f")
  case None
  then show ?thesis
    by (simp add: getUpdatedManifest_def metadata_unusable_def fst_io_bind fst_read_file)
next
  case (Some b)
  show ?thesis
  proof (cases "JSON_parse w b")
    case None
    with Some show ?thesis
      by (simp add: getUpdatedManifest_def metadata_unusable_def fst_io_bind fst_read_file
          io_throw_def)
  next
    case (Some m)
    with \<open>readFile w f = Some b\<close> show ?thesis
      by (cases m; cases "get_prop m ''properties''";
          cases "the (get_prop m ''properties'')")
         (auto simp: getUpdatedManifest_def metadata_unusable_def manifest_shape_ok_def
            fst_io_bind fst_read_file io_throw_def io_return_def map_of_assign)
  qed
qed

text \<open>A manifest with an object as \<open>properties\<close> is taken whatever else it lacks: the
  two properties are added.\<close>

lemma getUpdatedManifest_adds_missing_properties:
  assumes "readFile w f = Some b" and "JSON_parse w b = Some (JObj [(''properties'', JObj [])])"
  shows "fst (getUpdatedManifest w f l ct) =
     Inr (JObj [(''properties'',
                 JObj [(''files'', JArr [JObj [(''type'', js_val ct), (''uri'', JStr l)]] [])]),
                (''image'', JStr l)])"
  using assms by (simp add: getUpdatedManifest_def fst_io_bind fst_read_file io_return_def)

lemma getUpdatedManifest_succeeds:
  "\<not> metadata_unusable w f \<Longrightarrow> \<exists>m. fst (getUpdatedManifest w f l ct) = Inr m"
  using getUpdatedManifest_fails_iff[of w f l ct]
  by (cases "fst (getUpdatedManifest w f l ct)") auto

lemma processBundleFilePair_metadata_fails:
  assumes "readFile w (image_path fp) = Some b"
    and "getType w (image_path fp) = Some ct"
    and "sign_id w s b (imageTags @ [(''Content-Type'', Some ct)]) = Some i"
    and "fst (getUpdatedManifest w (manifest fp) (''https://arweave.net/'' @ i) (Some ct)) = Inl e"
  shows "processBundleFilePair w s acc fp =
     (Inl e, [EvReadFile (image_path fp),
              EvSign \<lparr>rawData = b, tags = imageTags @ [(''Content-Type'', Some ct)], id_tx = []\<rparr>,
              EvReadFile (manifest fp)])"
proof -
  have "getUpdatedManifest w (manifest fp) (''https://arweave.net/'' @ i) (Some ct)
          = (Inl e, [EvReadFile (manifest fp)])"
    using assms(4) snd_getUpdatedManifest[of w "manifest fp"] by (metis prod.collapse)
  with assms(1,2,3) show ?thesis
    by (simp add: processBundleFilePair_def Let_def getImageDataItem_def read_file_def
        io_of_def sign_def createData_tags)
qed

text \<open>An image of unknown media type: \<open>createData\<close> throws once the image is read;
  nothing is signed and the manifest is not read.\<close>

lemma processBundleFilePair_unknown_type:
  assumes "readFile w (image_path fp) = Some b" and "getType w (image_path fp) = None"
  shows "processBundleFilePair w s acc fp = (Inl TagFormatError, [EvReadFile (image_path fp)])"
  using assms
  by (simp add: processBundleFilePair_def Let_def getImageDataItem_def read_file_def
      io_of_def createData_tags)

lemma fst_reduce_pairs_append:
  "fst (reduce_pairs w s acc (xs @ ys)) =
     (case fst (reduce_pairs w s acc xs) of
        Inl e \<Rightarrow> Inl e
      | Inr acc' \<Rightarrow> fst (reduce_pairs w s acc' ys))"
  by (induction xs arbitrary: acc) (simp_all add: io_return_def fst_io_bind split: sum.splits)

lemma healthy_drop: "healthy w c \<Longrightarrow> healthy w (c\<lparr>filePairs := drop k (filePairs c)\<rparr>)"
  by (auto simp: healthy_def dest: in_set_dropD)

lemma healthy_step:
  assumes "healthy w c" and "filePairs c \<noteq> []"
  shows "\<exists>br res. fst (getBundleRange w (filePairs c)) = Inr br
           \<and> fst (fst (processBundle w c br)) = Inr res"
proof -
  from assms have "list_all (\<lambda>fp. spec_pair_size w fp \<noteq> None) (filePairs c)"
    and "case filePairs c of [] \<Rightarrow> True
         | fp # _ \<Rightarrow> (\<exists>n. spec_pair_size w fp = Some n \<and> n < BUNDLE_SIZE_BYTE_LIMIT)"
    by (auto simp: healthy_def list_all_iff split: list.splits)
  from getBundleRange_returns[OF this] obtain br where
    br: "fst (getBundleRange w (filePairs c)) = Inr br" by blast
  have "\<exists>res. fst (fst (processBundle w c br)) = Inr res"
  proof (rule processBundle_succeeds)
    from assms(1) show "\<forall>b ts. sign_id w (signer c) b ts \<noteq> None" by (simp add: healthy_def)
    from assms(1) show "\<forall>fp\<in>set (take (count br) (filePairs c)).
        readFile w (image_path fp) \<noteq> None
        \<and> getType w (image_path fp) \<noteq> None
        \<and> (\<forall>l. \<exists>m. fst (getUpdatedManifest w (manifest fp) l (getType w (image_path fp))) = Inr m)"
      by (auto simp: healthy_def dest!: in_set_takeD intro: getUpdatedManifest_succeeds)
    from assms(1) show "storageType c = ArweaveSol \<longrightarrow> walletKeyPair (params c) \<noteq> None
        \<and> (\<forall>n. getStorageCost w n \<noteq> None) \<and> (\<forall>x. fund w x) \<and> (\<forall>d. upload_tx w d)"
      by (simp add: healthy_def)
    from assms(1) show "storageType c = ArweaveBundle \<longrightarrow> (\<forall>ds. post_bundle w ds)"
      by (simp add: healthy_def)
  qed
  with br show ?thesis by blast
qed

lemma healthy_no_failure:
  "healthy w c \<Longrightarrow> resumptions w n (SuspendedYield c) = (rs, st, t) \<Longrightarrow>
   \<forall>r\<in>set rs. \<not> failed r"
proof (induction n arbitrary: c rs st t)
  case 0
  then show ?case by simp
next
  case (Suc n)
  from Suc.prems(2) obtain r st1 t1 rs' t' where
    step: "resume w (SuspendedYield c) = (r, st1, t1)"
    and rest: "resumptions w n st1 = (rs', st, t')" and rs: "rs = r # rs'"
    by (rule resumptions_Suc_split)
  show ?case
  proof (cases "filePairs c = []")
    case True
    with step have "r = Done" "st1 = Completed" by simp_all
    with rest rs show ?thesis by (auto simp: resumptions_Completed)
  next
    case False
    from healthy_step[OF Suc.prems(1) False] obtain br res where
      br: "fst (getBundleRange w (filePairs c)) = Inr br"
      and res: "fst (fst (processBundle w c br)) = Inr res" by blast
    from resume_loop_range[OF False br] step res
    have r: "r = Yielded (Inr res)"
      and st1: "st1 = SuspendedYield (c\<lparr>filePairs := drop (count br) (filePairs c)\<rparr>)"
      by simp_all
    from Suc.IH[OF healthy_drop[OF Suc.prems(1)] rest[unfolded st1]] r rs
    show ?thesis by simp
  qed
qed

subsection \<open>The demo collection\<close>

lemma demo_world_fields [simp]:
  "stat_size demo_world f =
     (if f \<in> {''/assets/0.png'', ''/assets/1.png'', ''/assets/2.png''} then Some 20000000
      else if f \<in> {''/assets/0.json'', ''/assets/1.json'', ''/assets/2.json''}
      then Some 62 else None)"
  "readFile demo_world f =
     (if f \<in> {''/assets/0.png'', ''/assets/1.png'', ''/assets/2.png''} then Some (''PNG '' @ f)
      else if f \<in> {''/assets/0.json'', ''/assets/1.json'', ''/assets/2.json''}
      then Some (JSON_stringify demo_manifest)
      else None)"
  "JSON_parse demo_world b = (if b = JSON_stringify demo_manifest then Some demo_manifest else None)"
  "getType demo_world f = Some ''image/png''"
  "getExtension demo_world ct = Some ''png''"
  "path_join demo_world dir f = dir @ ''/'' @ f"
  "bs58_encode demo_world b = b"
  "signer_ok demo_world = (\<lambda>s. True)"
  "sign_id demo_world s b ts = Some (demo_id b)"
  "getStorageCost demo_world n = Some n"
  "fund demo_world = (\<lambda>x. True)"
  "upload_tx demo_world = (\<lambda>item. True)"
  "post_bundle demo_world = (\<lambda>ds. True)"
  by (simp_all add: demo_world_def demo_manifest_def quote_def quote_char_def)

lemma bad_world_fields [simp]:
  "stat_size bad_world f = (if f = ''/assets/1.json'' then Some 1 else stat_size demo_world f)"
  "readFile bad_world f = (if f = ''/assets/1.json'' then Some ''{'' else readFile demo_world f)"
  "JSON_parse bad_world = JSON_parse demo_world"
  "getType bad_world = getType demo_world"
  "sign_id bad_world = sign_id demo_world"
  "getStorageCost bad_world = getStorageCost demo_world"
  "fund bad_world = fund demo_world"
  "upload_tx bad_world = upload_tx demo_world"
  by (simp_all add: bad_world_def)

lemma demo_manifest_text:
  "JSON_stringify demo_manifest \<noteq> ''{''"
  by (simp add: demo_manifest_def quote_def)

lemma demo_manifest_usable:
  "f \<in> {''/assets/0.json'', ''/assets/1.json'', ''/assets/2.json''} \<Longrightarrow>
   \<not> metadata_unusable demo_world f"
  by (auto simp: metadata_unusable_def manifest_shape_ok_def demo_manifest_def)

lemma demo_args_fields [simp]:
  "storage demo_args = ArweaveSol"
  "dirname demo_args = ''/assets''"
  "assets demo_args = [\<lparr>mediaExt = ''.png'', index = ''0''\<rparr>, \<lparr>mediaExt = ''.png'', index = ''1''\<rparr>,
                       \<lparr>mediaExt = ''.png'', index = ''2''\<rparr>]"
  "jwk demo_args = None"
  "walletKeyPair demo_args = Some \<lparr>secretKey = ''secret''\<rparr>"
  by (simp_all add: demo_args_def)

lemma demo_pair_fields [simp]:
  "key (demo_pair i) = i"
  "image_path (demo_pair i) = ''/assets/'' @ i @ ''.png''"
  "manifest (demo_pair i) = ''/assets/'' @ i @ ''.json''"
  by (simp_all add: demo_pair_def)

lemma demo_locals_fields [simp]:
  "params demo_locals = demo_args"
  "signer demo_locals = SolanaSigner ''secret''"
  "storageType demo_locals = ArweaveSol"
  "filePairs demo_locals = [demo_pair ''0'', demo_pair ''1'', demo_pair ''2'']"
  by (simp_all add: demo_locals_def)

lemma makeFilePairs_demo:
  "makeFilePairs demo_world demo_args = [demo_pair ''0'', demo_pair ''1'', demo_pair ''2'']"
  by (simp add: makeFilePairs_def demo_pair_def)

lemma resume_demo_start:
  "resume demo_world (SuspendedStart demo_args)
     = (Yielded (Inr empty_result), SuspendedYield demo_locals, [])"
  by (simp add: makeSigner_def new_signer_def makeFilePairs_demo demo_locals_def)

lemma demo_pair_healthy:
  "i \<in> {''0'', ''1'', ''2''} \<Longrightarrow>
   readFile demo_world (image_path (demo_pair i)) \<noteq> None
   \<and> getType demo_world (image_path (demo_pair i)) \<noteq> None
   \<and> \<not> metadata_unusable demo_world (manifest (demo_pair i))
   \<and> (\<exists>n. spec_pair_size demo_world (demo_pair i) = Some n \<and> n < BUNDLE_SIZE_BYTE_LIMIT)"
  using demo_pair_size[of i] demo_manifest_usable[of "manifest (demo_pair i)"]
  by (auto simp: BUNDLE_SIZE_BYTE_LIMIT_def)

lemma healthy_demo: "healthy demo_world demo_locals"
  unfolding healthy_def
proof (intro conjI)
  show "\<forall>fp\<in>set (filePairs demo_locals).
      readFile demo_world (image_path fp) \<noteq> None
      \<and> getType demo_world (image_path fp) \<noteq> None
      \<and> \<not> metadata_unusable demo_world (manifest fp)
      \<and> (\<exists>n. spec_pair_size demo_world fp = Some n \<and> n < BUNDLE_SIZE_BYTE_LIMIT)"
    using demo_pair_healthy[of "''0''"] demo_pair_healthy[of "''1''"] demo_pair_healthy[of "''2''"]
    by (simp del: demo_pair_fields)
qed simp_all


subsection \<open>The start of the generator\<close>

lemma resume_start_ok:
  assumes "storage a \<noteq> ArweaveBundle"
    and "storage a = ArweaveSol \<longrightarrow>
           (\<exists>kp. walletKeyPair a = Some kp
              \<and> signer_ok w (SolanaSigner (bs58_encode w (secretKey kp))))"
    and "storage a \<noteq> ArweaveSol \<longrightarrow> (\<exists>j. jwk a = Some j \<and> signer_ok w (ArweaveSigner j))"
  shows "\<exists>s. resume w (SuspendedStart a) =
           (Yielded (Inr empty_result),
            SuspendedYield \<lparr>params = a, signer = s, storageType = storage a,
                            filePairs = makeFilePairs w a\<rparr>, [])"
  using assms by (cases "storage a = ArweaveSol") (auto simp: makeSigner_def new_signer_def)

text \<open>A storage other than the two strategies and no JWK: the constructor of the
  Arweave signer throws before the first \<open>yield\<close>.\<close>

lemma resume_start_no_jwk:
  "storage a = OtherStorage \<Longrightarrow> jwk a = None \<Longrightarrow>
   resume w (SuspendedStart a) = (Threw TypeError, Completed, [])"
  by (simp add: makeSigner_def)

text \<open>The two checks, for any arguments: the first looks at the wallet keypair, the
  second at the storage type alone.\<close>

lemma resume_start_ArweaveSol_no_keypair:
  "storage a = ArweaveSol \<Longrightarrow> walletKeyPair a = None \<Longrightarrow>
   resume w (SuspendedStart a) =
     (Threw (ConfigError ''To pay for uploads with SOL, you need to pass a Solana Keypair''),
      Completed, [])"
  by simp

lemma resume_start_ArweaveBundle:
  "storage a = ArweaveBundle \<Longrightarrow>
   resume w (SuspendedStart a) =
     (Threw (ConfigError ''To pay for uploads with AR, you need to pass a Arweave JWK''),
      Completed, [])"
  by simp

text \<open>A manifest that is missing when the range is computed: \<open>stat\<close> rejects, no pair
  is processed and the pending pairs stay as they are.\<close>

lemma missing_manifest_rejects_range:
  assumes "filePairs c = fp # rest" and "stat_size w (image_path fp) = Some n"
    and "stat_size w (manifest fp) = None"
  shows "resume w (SuspendedYield c) =
     (Yielded (Inl (StatError (manifest fp))), SuspendedYield c,
      [EvStat (image_path fp), EvStat (manifest fp)])"
  using assms by (simp add: getBundleRange_def filePairSize_def stat_def)

lemma map_key_makeFilePairs: "map key (makeFilePairs w a) = map index (assets a)"
  by (simp add: makeFilePairs_def comp_def)

text \<open>
  C4. The claim holds of the SOL-funded strategy, and fails on the code for the AR-bundle
  strategy: the second check of the generator tests the storage type alone, so a call
  with \<open>StorageType.ArweaveBundle\<close> and a JWK throws the error of the missing JWK on its
  first resumption.
\<close>

theorem ArweaveBundle_with_jwk_throws:
  "resume demo_world
     (SuspendedStart (demo_args\<lparr>storage := ArweaveBundle, jwk := Some ''jwk'', walletKeyPair := None\<rparr>))
   = (Threw (ConfigError ''To pay for uploads with AR, you need to pass a Arweave JWK''),
      Completed, [])"
  by simp

text \<open>
  C9. As stated the claim fails: with the SOL-funded strategy and no wallet keypair the
  first resumption throws and yields nothing.
\<close>

theorem first_resumption_throws_without_keypair:
  "resume demo_world (SuspendedStart (demo_args\<lparr>walletKeyPair := None\<rparr>))
     = (Threw (ConfigError ''To pay for uploads with SOL, you need to pass a Solana Keypair''),
        Completed, [])
   \<and> fst (resume demo_world (SuspendedStart (demo_args\<lparr>walletKeyPair := None\<rparr>)))
        \<noteq> Yielded (Inr empty_result)"
  by simp

text \<open>
  C9, amended. For every input whose storage is not the AR-bundle strategy and whose
  signer can be constructed, that is, with the SOL-funded strategy a wallet keypair is
  passed and the Solana signer accepts its key, and with any other storage a JWK is passed
  and the Arweave signer accepts it (an empty asset list included), the first resumption
  yields the result with no keys, no links and no manifests, and causes no event: no file
  is read, nothing is signed, nothing is uploaded. For an empty asset list the second
  resumption is done, again with no event.
\<close>

theorem first_resumption_yields_empty_result:
  assumes "storage a \<noteq> ArweaveBundle"
    and "storage a = ArweaveSol \<longrightarrow>
           (\<exists>kp. walletKeyPair a = Some kp
              \<and> signer_ok w (SolanaSigner (bs58_encode w (secretKey kp))))"
    and "storage a \<noteq> ArweaveSol \<longrightarrow> (\<exists>j. jwk a = Some j \<and> signer_ok w (ArweaveSigner j))"
  shows "\<exists>c. resume w (SuspendedStart a) = (Yielded (Inr empty_result), SuspendedYield c, [])
     \<and> cacheKeys empty_result = [] \<and> arweavePathManifestLinks empty_result = []
     \<and> updatedManifests empty_result = []
     \<and> filePairs c = makeFilePairs w a
     \<and> (assets a = [] \<longrightarrow> resume w (SuspendedYield c) = (Done, Completed, []))"
proof -
  from resume_start_ok[OF assms] obtain s where
    "resume w (SuspendedStart a) =
       (Yielded (Inr empty_result),
        SuspendedYield \<lparr>params = a, signer = s, storageType = storage a,
                        filePairs = makeFilePairs w a\<rparr>, [])" ..
  then show ?thesis
    by (intro exI[of _ "\<lparr>params = a, signer = s, storageType = storage a,
                         filePairs = makeFilePairs w a\<rparr>"])
       (simp add: empty_result_def makeFilePairs_def del: resume.simps(1))
qed

theorem first_resumption_yields_empty_result_witness:
  "(\<exists>c. resume demo_world (SuspendedStart (demo_args\<lparr>assets := []\<rparr>))
             = (Yielded (Inr empty_result), SuspendedYield c, [])
          \<and> resume demo_world (SuspendedYield c) = (Done, Completed, []))
   \<and> (\<exists>c. resume demo_world
               (SuspendedStart (demo_args\<lparr>storage := OtherStorage, jwk := Some ''jwk''\<rparr>))
             = (Yielded (Inr empty_result), SuspendedYield c, [])
          \<and> map key (filePairs c) = [''0'', ''1'', ''2''])"
proof -
  let ?a = "demo_args\<lparr>assets := []\<rparr>"
  let ?b = "demo_args\<lparr>storage := OtherStorage, jwk := Some ''jwk''\<rparr>"
  have a1: "storage ?a \<noteq> ArweaveBundle" by simp
  have a2: "storage ?a = ArweaveSol \<longrightarrow>
      (\<exists>kp. walletKeyPair ?a = Some kp
         \<and> signer_ok demo_world (SolanaSigner (bs58_encode demo_world (secretKey kp))))"
    by simp
  have a3: "storage ?a \<noteq> ArweaveSol \<longrightarrow>
      (\<exists>j. jwk ?a = Some j \<and> signer_ok demo_world (ArweaveSigner j))"
    by simp
  have b1: "storage ?b \<noteq> ArweaveBundle" by simp
  have b2: "storage ?b = ArweaveSol \<longrightarrow>
      (\<exists>kp. walletKeyPair ?b = Some kp
         \<and> signer_ok demo_world (SolanaSigner (bs58_encode demo_world (secretKey kp))))"
    by simp
  have b3: "storage ?b \<noteq> ArweaveSol \<longrightarrow>
      (\<exists>j. jwk ?b = Some j \<and> signer_ok demo_world (ArweaveSigner j))"
    by simp
  have k: "map key (makeFilePairs demo_world ?b) = [''0'', ''1'', ''2'']"
    by (simp add: makeFilePairs_def)
  from first_resumption_yields_empty_result[OF a1 a2 a3]
    first_resumption_yields_empty_result[OF b1 b2 b3] k
  show ?thesis by (auto simp del: resume.simps)
qed

text \<open>
  C6. When a resumption of the loop yields the result of a bundle, \<open>getBundleRange\<close> has
  returned a range for the pending pairs, its \<open>count\<close> is between 1 and the number of
  pending pairs, the pending pairs afterwards are the former ones without their first
  \<open>count\<close> (so there are exactly \<open>count\<close> fewer), and the result reports the keys of the
  pairs removed. A resumption of the loop is done if and only if no pair is pending.
\<close>

theorem bundle_shrinks_pending_by_count:
  "(resume w (SuspendedYield c) = (Yielded (Inr res), st', t) \<longrightarrow>
      (\<exists>r. fst (getBundleRange w (filePairs c)) = Inr r
          \<and> 1 \<le> count r \<and> count r \<le> length (filePairs c)
          \<and> st' = SuspendedYield (c\<lparr>filePairs := drop (count r) (filePairs c)\<rparr>)
          \<and> length (drop (count r) (filePairs c)) + count r = length (filePairs c)
          \<and> cacheKeys res = map key (take (count r) (filePairs c))))
   \<and> (fst (resume w (SuspendedYield c)) = Done \<longleftrightarrow> filePairs c = [])"
proof (intro conjI impI)
  assume step: "resume w (SuspendedYield c) = (Yielded (Inr res), st', t)"
  then have ne: "filePairs c \<noteq> []" by auto
  from step ne obtain r where r: "fst (getBundleRange w (filePairs c)) = Inr r"
    by (cases "fst (getBundleRange w (filePairs c))")
       (auto simp: resume_loop_range_fails simp del: resume.simps)
  from resume_loop_range[OF ne r] step
  have res: "fst (fst (processBundle w c r)) = Inr res"
    and st': "st' = SuspendedYield (c\<lparr>filePairs := drop (count r) (filePairs c)\<rparr>)"
    by simp_all
  from getBundleRange_result[OF r] ne have "1 \<le> count r" "count r \<le> length (filePairs c)"
    by (simp_all add: Suc_le_eq)
  with r st' processBundle_Inr[OF res]
  show "\<exists>r. fst (getBundleRange w (filePairs c)) = Inr r
          \<and> 1 \<le> count r \<and> count r \<le> length (filePairs c)
          \<and> st' = SuspendedYield (c\<lparr>filePairs := drop (count r) (filePairs c)\<rparr>)
          \<and> length (drop (count r) (filePairs c)) + count r = length (filePairs c)
          \<and> cacheKeys res = map key (take (count r) (filePairs c))"
    by (intro exI[of _ r]) simp
next
  show "fst (resume w (SuspendedYield c)) = Done \<longleftrightarrow> filePairs c = []"
    by (rule resume_loop_Done)
qed

theorem bundle_shrinks_pending_by_count_witness:
  "\<exists>res t. resume demo_world (SuspendedYield demo_locals)
       = (Yielded (Inr res),
          SuspendedYield (demo_locals\<lparr>filePairs := [demo_pair ''2'']\<rparr>), t)
     \<and> cacheKeys res = [''0'', ''1'']
     \<and> fst (resume demo_world (SuspendedYield demo_locals)) \<noteq> Done"
proof -
  have ne: "filePairs demo_locals \<noteq> []" by simp
  have r: "fst (getBundleRange demo_world (filePairs demo_locals))
             = Inr \<lparr>count = 2, size_bytes = 40000570\<rparr>"
    using demo_range by simp
  from healthy_step[OF healthy_demo ne] r obtain res where
    res: "fst (fst (processBundle demo_world demo_locals \<lparr>count = 2, size_bytes = 40000570\<rparr>)) = Inr res"
    by auto
  from resume_loop_range[OF ne r] res obtain t where
    step: "resume demo_world (SuspendedYield demo_locals)
       = (Yielded (Inr res),
          SuspendedYield (demo_locals\<lparr>filePairs := [demo_pair ''2'']\<rparr>), t)"
    by (simp del: resume.simps)
  from bundle_shrinks_pending_by_count[of demo_world demo_locals res
      "SuspendedYield (demo_locals\<lparr>filePairs := [demo_pair ''2'']\<rparr>)" t] step r
  show ?thesis by (auto simp del: resume.simps)
qed


subsection \<open>Whole runs\<close>

lemma resume_start_not_failed:
  assumes "resume w (SuspendedStart a) = (r, st1, t1)" and "\<not> failed r"
  shows "r = Yielded (Inr empty_result)
     \<and> (\<exists>c. st1 = SuspendedYield c \<and> filePairs c = makeFilePairs w a)"
  using assms by (auto split: if_splits sum.splits)

lemma subseq_set: "subseq xs ys \<Longrightarrow> set xs \<subseteq> set ys"
  using list_emb_set[of "(=)" xs ys] by auto

text \<open>
  C5. Take any number of resumptions of the generator from its start, none of which
  throws or yields a promise that rejects. If the generator is done among them, the keys
  of the yielded results, concatenated in yield order, are the keys of the assets in
  their original order, and the lengths of the key lists add up to the number of assets.
  The generator is done within \<open>length assets + 2\<close> such resumptions.
\<close>

theorem run_reports_all_keys_in_order:
  assumes "resumptions w n (SuspendedStart a) = (rs, st, t)" and "\<forall>r\<in>set rs. \<not> failed r"
  shows "(Done \<in> set rs \<longrightarrow>
            concat (map cacheKeys (fulfilled rs)) = map index (assets a)
          \<and> sum_list (map (\<lambda>res. length (cacheKeys res)) (fulfilled rs)) = length (assets a))
     \<and> (length (assets a) + 2 \<le> n \<longrightarrow> Done \<in> set rs)"
proof (cases n)
  case 0
  with assms(1) show ?thesis by simp
next
  case (Suc m)
  from assms(1)[unfolded Suc] obtain r st1 t1 rs' t' where
    step: "resume w (SuspendedStart a) = (r, st1, t1)"
    and rest: "resumptions w m st1 = (rs', st, t')" and rs: "rs = r # rs'"
    by (rule resumptions_Suc_split)
  from assms(2) rs have nf: "\<not> failed r" "\<forall>r\<in>set rs'. \<not> failed r" by simp_all
  from resume_start_not_failed[OF step nf(1)] obtain c where
    r: "r = Yielded (Inr empty_result)" and st1: "st1 = SuspendedYield c"
    and c: "filePairs c = makeFilePairs w a" by blast
  have keys: "concat (map cacheKeys (fulfilled rs)) = map index (assets a)" if "Done \<in> set rs"
  proof -
    from that rs r have "Done \<in> set rs'" by simp
    from loop_keys[OF rest[unfolded st1] nf(2) this] rs r c show ?thesis
      by (simp add: empty_result_def map_key_makeFilePairs)
  qed
  have "sum_list (map (\<lambda>res. length (cacheKeys res)) (fulfilled rs))
          = length (concat (map cacheKeys (fulfilled rs)))"
    by (simp add: length_concat comp_def)
  with keys have len: "sum_list (map (\<lambda>res. length (cacheKeys res)) (fulfilled rs))
      = length (assets a)" if "Done \<in> set rs"
    using that by simp
  have "Done \<in> set rs" if "length (assets a) + 2 \<le> n"
  proof -
    from that Suc c have "length (filePairs c) < m" by (simp add: makeFilePairs_def)
    from loop_done[OF rest[unfolded st1] nf(2) this] rs show ?thesis by simp
  qed
  with keys len show ?thesis by blast
qed

theorem run_reports_all_keys_in_order_witness:
  "\<exists>rs st t. resumptions demo_world 5 (SuspendedStart demo_args) = (rs, st, t)
     \<and> (\<forall>r\<in>set rs. \<not> failed r) \<and> Done \<in> set rs
     \<and> concat (map cacheKeys (fulfilled rs)) = [''0'', ''1'', ''2'']
     \<and> sum_list (map (\<lambda>res. length (cacheKeys res)) (fulfilled rs)) = 3"
proof -
  obtain rs st t where run: "resumptions demo_world 5 (SuspendedStart demo_args) = (rs, st, t)"
    by (metis prod_cases3)
  have 5: "(5::nat) = Suc 4" by simp
  from run[unfolded 5] obtain r st1 t1 rs' t' where
    step: "resume demo_world (SuspendedStart demo_args) = (r, st1, t1)"
    and rest: "resumptions demo_world 4 st1 = (rs', st, t')" and rs: "rs = r # rs'"
    by (rule resumptions_Suc_split)
  from step[unfolded resume_demo_start]
  have r: "r = Yielded (Inr empty_result)" and st1: "st1 = SuspendedYield demo_locals"
    by simp_all
  from healthy_no_failure[OF healthy_demo rest[unfolded st1]] rs r
  have nf: "\<forall>r\<in>set rs. \<not> failed r" by simp
  from run_reports_all_keys_in_order[OF run nf] run nf show ?thesis
    by (intro exI[of _ rs] exI[of _ st] exI[of _ t]) simp
qed

text \<open>
  C10. In \<open>processBundle\<close> the first \<open>count\<close> pairs leave \<open>filePairs\<close> before the pairs
  of the bundle are processed, whatever becomes of them. So when a range has been
  computed and the promise of the bundle then rejects, the pending pairs are the former
  ones without their first \<open>count\<close>; after any number of further resumptions the pending
  pairs are a suffix of those, the keys reported by the results yielded are a
  subsequence of their keys, and, the keys being distinct, no key of the failed bundle is
  among them.
\<close>

theorem failed_bundle_is_not_restored:
  assumes "filePairs c \<noteq> []" and "fst (getBundleRange w (filePairs c)) = Inr r"
    and "resume w (SuspendedYield c) = (Yielded (Inl e), st', t)"
  shows "snd (processBundle w c r) = c\<lparr>filePairs := drop (count r) (filePairs c)\<rparr>
     \<and> st' = SuspendedYield (c\<lparr>filePairs := drop (count r) (filePairs c)\<rparr>)
     \<and> 1 \<le> count r
     \<and> (\<forall>n rs st'' t''. resumptions w n st' = (rs, st'', t'') \<longrightarrow>
           subseq (concat (map cacheKeys (fulfilled rs))) (map key (drop (count r) (filePairs c)))
         \<and> (st'' = Completed
              \<or> (\<exists>c''. st'' = SuspendedYield c''
                    \<and> suffix (filePairs c'') (drop (count r) (filePairs c))))
         \<and> (distinct (map key (filePairs c)) \<longrightarrow>
              set (concat (map cacheKeys (fulfilled rs)))
                \<inter> set (map key (take (count r) (filePairs c))) = {}))"
proof (intro conjI allI impI)
  show "snd (processBundle w c r) = c\<lparr>filePairs := drop (count r) (filePairs c)\<rparr>"
    by (rule snd_processBundle)
  from resume_loop_range[OF assms(1,2)] assms(3)
  show st': "st' = SuspendedYield (c\<lparr>filePairs := drop (count r) (filePairs c)\<rparr>)" by simp
  from getBundleRange_result[OF assms(2)] assms(1) show "1 \<le> count r" by (simp add: Suc_le_eq)
  fix n rs st'' t''
  assume run: "resumptions w n st' = (rs, st'', t'')"
  from loop_later_keys[OF run[unfolded st']]
  show sub: "subseq (concat (map cacheKeys (fulfilled rs))) (map key (drop (count r) (filePairs c)))"
    and "st'' = Completed
       \<or> (\<exists>c''. st'' = SuspendedYield c'' \<and> suffix (filePairs c'') (drop (count r) (filePairs c)))"
    by simp_all
  assume "distinct (map key (filePairs c))"
  then have "distinct (map key (take (count r) (filePairs c)) @ map key (drop (count r) (filePairs c)))"
    by (simp flip: map_append)
  then have "set (map key (take (count r) (filePairs c)))
               \<inter> set (map key (drop (count r) (filePairs c))) = {}"
    by (simp only: distinct_append)
  with subseq_set[OF sub]
  show "set (concat (map cacheKeys (fulfilled rs)))
          \<inter> set (map key (take (count r) (filePairs c))) = {}"
    by blast
qed


subsection \<open>The collection with the manifest that is not JSON\<close>

lemma snd_reduce_sizes: "\<not> list_ex is_submission (snd (reduce_sizes w acc fs))"
  by (induction fs arbitrary: acc)
     (simp_all add: io_return_def snd_io_bind stat_def split: sum.splits option.splits)

lemma getBundleRange_loop_no_submission:
  "\<not> list_ex is_submission (snd (getBundleRange_loop w tot cnt fps))"
proof (induction fps arbitrary: tot cnt)
  case Nil
  then show ?case by (simp add: io_return_def)
next
  case (Cons fp fps)
  then show ?case
    using snd_reduce_sizes[of w dummyAreaveManifestByteSize "[image_path fp, manifest fp]"]
    by (simp add: snd_io_bind filePairSize_def io_return_def io_throw_def split: sum.splits)
qed

lemma getBundleRange_no_submission: "\<not> list_ex is_submission (snd (getBundleRange w fps))"
  by (simp add: getBundleRange_def getBundleRange_loop_no_submission)

lemma bad_pair_size:
  "spec_pair_size bad_world (demo_pair ''0'') = Some 20000285"
  "spec_pair_size bad_world (demo_pair ''1'') = Some 20000224"
  "spec_pair_size bad_world (demo_pair ''2'') = Some 20000285"
  by (simp_all add: spec_pair_size_def dummy_size_value)

lemma bad_range:
  "fst (getBundleRange bad_world [demo_pair ''0'', demo_pair ''1'', demo_pair ''2''])
     = Inr \<lparr>count = 2, size_bytes = 40000509\<rparr>"
  by (simp add: getBundleRange_def fst_io_bind fst_filePairSize bad_pair_size
      BUNDLE_SIZE_BYTE_LIMIT_def io_return_def del: demo_pair_fields)

lemma bad_manifest_unusable: "metadata_unusable bad_world (manifest (demo_pair ''1''))"
  using demo_manifest_text by (simp add: metadata_unusable_def)

lemma bad_manifest_error:
  "fst (getUpdatedManifest bad_world (manifest (demo_pair ''1'')) l ct) = Inl JSONSyntaxError"
  using demo_manifest_text
  by (simp add: getUpdatedManifest_def fst_io_bind fst_read_file io_throw_def)

lemma bad_pair_1:
  "processBundleFilePair bad_world (SolanaSigner ''secret'') acc (demo_pair ''1'') =
     (Inl JSONSyntaxError,
      [EvReadFile ''/assets/1.png'',
       EvSign \<lparr>rawData = ''PNG /assets/1.png'',
               tags = [(''App-Name'', Some ''Metaplex Candy Machine''),
                       (''Content-Type'', Some ''image/png'')],
               id_tx = []\<rparr>,
       EvReadFile ''/assets/1.json''])"
  using processBundleFilePair_metadata_fails[where w = bad_world and fp = "demo_pair ''1''"
      and b = "''PNG /assets/1.png''" and ct = "''image/png''" and s = "SolanaSigner ''secret''"
      and i = "demo_id ''PNG /assets/1.png''" and e = JSONSyntaxError and acc = acc]
    bad_manifest_error
  by (simp add: imageTags_def BASE_TAGS_def)

lemma bad_pair_0:
  "\<exists>acc'. fst (processBundleFilePair bad_world (SolanaSigner ''secret'') acc (demo_pair ''0'')) = Inr acc'"
proof (rule processBundleFilePair_succeeds)
  show "readFile bad_world (image_path (demo_pair ''0'')) \<noteq> None" by simp
  show "\<forall>b ts. sign_id bad_world (SolanaSigner ''secret'') b ts \<noteq> None" by simp
  show "getType bad_world (image_path (demo_pair ''0'')) \<noteq> None" by simp
  have "\<not> metadata_unusable bad_world (manifest (demo_pair ''0''))"
    using demo_manifest_usable[of "''/assets/0.json''"] by (simp add: metadata_unusable_def)
  then show "\<forall>l. \<exists>m. fst (getUpdatedManifest bad_world (manifest (demo_pair ''0'')) l
      (getType bad_world (image_path (demo_pair ''0'')))) = Inr m"
    by (blast intro: getUpdatedManifest_succeeds)
qed

lemma bad_resume:
  "\<exists>t. resume bad_world (SuspendedYield demo_locals)
     = (Yielded (Inl JSONSyntaxError),
        SuspendedYield (demo_locals\<lparr>filePairs := [demo_pair ''2'']\<rparr>), t)"
proof -
  let ?r = "\<lparr>count = 2, size_bytes = 40000509\<rparr>"
  have ne: "filePairs demo_locals \<noteq> []" by simp
  have r: "fst (getBundleRange bad_world (filePairs demo_locals)) = Inr ?r"
    using bad_range by simp
  from bad_pair_0[of empty_acc] obtain acc1 where
    "fst (processBundleFilePair bad_world (SolanaSigner ''secret'') empty_acc (demo_pair ''0'')) = Inr acc1"
    by blast
  then have "fst (reduce_pairs bad_world (signer demo_locals) empty_acc
      (take (count ?r) (filePairs demo_locals))) = Inl JSONSyntaxError"
    by (simp add: fst_io_bind bad_pair_1 del: demo_pair_fields)
  from processBundle_pairs_fail[OF this]
  have "fst (fst (processBundle bad_world demo_locals ?r)) = Inl JSONSyntaxError" by simp
  with resume_loop_range[OF ne r] show ?thesis by (simp del: resume.simps)
qed

theorem failed_bundle_is_not_restored_witness:
  "\<exists>st' t. filePairs demo_locals \<noteq> []
     \<and> fst (getBundleRange bad_world (filePairs demo_locals)) = Inr \<lparr>count = 2, size_bytes = 40000509\<rparr>
     \<and> resume bad_world (SuspendedYield demo_locals) = (Yielded (Inl JSONSyntaxError), st', t)
     \<and> st' = SuspendedYield (demo_locals\<lparr>filePairs := [demo_pair ''2'']\<rparr>)
     \<and> (\<forall>n rs st'' t''. resumptions bad_world n st' = (rs, st'', t'') \<longrightarrow>
           subseq (concat (map cacheKeys (fulfilled rs))) [''2'']
         \<and> set (concat (map cacheKeys (fulfilled rs))) \<inter> {''0'', ''1''} = {})"
proof -
  let ?r = "\<lparr>count = 2, size_bytes = 40000509\<rparr>"
  have ne: "filePairs demo_locals \<noteq> []" by simp
  have r: "fst (getBundleRange bad_world (filePairs demo_locals)) = Inr ?r"
    using bad_range by simp
  from bad_resume obtain t where
    step: "resume bad_world (SuspendedYield demo_locals)
       = (Yielded (Inl JSONSyntaxError),
          SuspendedYield (demo_locals\<lparr>filePairs := [demo_pair ''2'']\<rparr>), t)" ..
  have d: "distinct (map key (filePairs demo_locals))" by simp
  have dr: "map key (drop (count ?r) (filePairs demo_locals)) = [''2'']" by simp
  have tk: "set (map key (take (count ?r) (filePairs demo_locals))) = {''0'', ''1''}" by simp
  from failed_bundle_is_not_restored[OF ne r step]
  have "\<forall>n rs st'' t''.
      resumptions bad_world n (SuspendedYield (demo_locals\<lparr>filePairs := [demo_pair ''2'']\<rparr>))
        = (rs, st'', t'') \<longrightarrow>
      subseq (concat (map cacheKeys (fulfilled rs))) [''2'']
      \<and> set (concat (map cacheKeys (fulfilled rs))) \<inter> {''0'', ''1''} = {}"
    unfolding dr tk using d by blast
  with ne r step show ?thesis by blast
qed


text \<open>
  C8. As stated the claim fails: the manifest \<open>1.json\<close> of \<open>bad_world\<close> is not JSON, and
  processing its pair reads the image and builds and signs the data item of the image
  before the manifest is read and the error is thrown.
\<close>

theorem image_item_signed_before_manifest_is_read:
  "metadata_unusable bad_world (manifest (demo_pair ''1''))
   \<and> processBundleFilePair bad_world (SolanaSigner ''secret'') empty_acc (demo_pair ''1'') =
     (Inl JSONSyntaxError,
      [EvReadFile ''/assets/1.png'',
       EvSign \<lparr>rawData = ''PNG /assets/1.png'',
               tags = [(''App-Name'', Some ''Metaplex Candy Machine''),
                       (''Content-Type'', Some ''image/png'')],
               id_tx = []\<rparr>,
       EvReadFile ''/assets/1.json''])"
  using bad_manifest_unusable bad_pair_1[of empty_acc] by simp

text \<open>The manifest of a pair that cannot be measured: the pairs before it are measured and
  stay below the limit, and the loop of \<open>getBundleRange\<close> stops at the \<open>stat\<close> of the
  manifest. Every event of \<open>getBundleRange\<close> is a \<open>stat\<close>.\<close>

lemma loop_stat_fails:
  "map (spec_pair_size w) pre = map Some ns \<Longrightarrow> tot + sum_list ns < BUNDLE_SIZE_BYTE_LIMIT \<Longrightarrow>
   stat_size w (image_path fp) = Some a \<Longrightarrow> stat_size w (manifest fp) = None \<Longrightarrow>
   fst (getBundleRange_loop w tot cnt (pre @ fp # post)) = Inl (StatError (manifest fp))"
proof (induction pre arbitrary: ns tot cnt)
  case Nil
  then show ?case by (simp add: fst_io_bind fst_filePairSize spec_pair_size_def)
next
  case (Cons p pre)
  from Cons.prems(1) obtain n ns' where ns: "ns = n # ns'" and n: "spec_pair_size w p = Some n"
    and rest: "map (spec_pair_size w) pre = map Some ns'"
    by (cases ns) auto
  from Cons.prems(2) ns have lim: "tot + n + sum_list ns' < BUNDLE_SIZE_BYTE_LIMIT" by simp
  then have "\<not> BUNDLE_SIZE_BYTE_LIMIT \<le> tot + n" by simp
  with n Cons.IH[OF rest lim Cons.prems(3,4), of "cnt + 1"] show ?case
    by (simp add: fst_io_bind fst_filePairSize)
qed

lemma reduce_sizes_stats: "list_all is_stat (snd (reduce_sizes w acc fs))"
  by (induction fs arbitrary: acc)
     (simp_all add: io_return_def snd_io_bind stat_def split: sum.splits option.splits)

lemma getBundleRange_loop_stats: "list_all is_stat (snd (getBundleRange_loop w tot cnt fps))"
proof (induction fps arbitrary: tot cnt)
  case Nil
  then show ?case by (simp add: io_return_def)
next
  case (Cons fp fps)
  then show ?case
    using reduce_sizes_stats[of w dummyAreaveManifestByteSize "[image_path fp, manifest fp]"]
    by (simp add: snd_io_bind filePairSize_def io_return_def io_throw_def split: sum.splits)
qed

lemma resume_manifest_not_measured:
  assumes "filePairs c = pre @ fp # post"
    and "map (spec_pair_size w) pre = map Some ns" and "sum_list ns < BUNDLE_SIZE_BYTE_LIMIT"
    and "stat_size w (image_path fp) = Some a" and "stat_size w (manifest fp) = None"
  shows "\<exists>t. resume w (SuspendedYield c) =
            (Yielded (Inl (StatError (manifest fp))), SuspendedYield c, t)
          \<and> list_all is_stat t"
proof -
  from assms(1) have ne: "filePairs c \<noteq> []" by simp
  from assms(3) have "0 + sum_list ns < BUNDLE_SIZE_BYTE_LIMIT" by simp
  from loop_stat_fails[OF assms(2) this assms(4,5), of 0 post] assms(1)
  have "fst (getBundleRange w (filePairs c)) = Inl (StatError (manifest fp))"
    by (simp add: getBundleRange_def)
  from resume_loop_range_fails[OF ne this]
    getBundleRange_loop_stats[of w 0 0 "filePairs c"]
  show ?thesis by (simp add: getBundleRange_def del: resume.simps)
qed

lemma missing_world_fields [simp]:
  "stat_size missing_world f = (if f = ''/assets/1.json'' then None else stat_size demo_world f)"
  "readFile missing_world f = (if f = ''/assets/1.json'' then None else readFile demo_world f)"
  by (simp_all add: missing_world_def)

lemma missing_pair_0: "spec_pair_size missing_world (demo_pair ''0'') = Some 20000285"
  by (simp add: spec_pair_size_def dummy_size_value)

text \<open>
  C8, amended. Take a pair whose manifest is missing, is not JSON, or parses to a value
  without an object as \<open>properties\<close>. There are two cases.

  The manifest cannot be measured when the range of the bundle is computed, the pairs
  before it having been measured with a total size below the limit and the image of the
  pair having been measured: the promise of the bundle rejects with the error of \<open>stat\<close>
  for the manifest, the pending pairs stay as they were, and every effect of the
  resumption is a \<open>stat\<close>: nothing is read, built, signed or submitted.

  The pair belongs to the range of the bundle and its manifest is unusable when it is
  processed, the pairs of the bundle before it having been processed, its image being
  readable, of a known media type and signable: processing the pair fails with the error
  of \<open>getUpdatedManifest\<close>; by then the image of the pair has been read and its data item
  built and signed, and the manifest has been read, and nothing else has happened: no
  data item is built for the manifest or for the path manifest of the pair. The promise
  of the bundle rejects with that error, so no result is yielded for the bundle, and the
  resumption submits nothing to the network.
\<close>

theorem unusable_manifest_aborts_bundle:
  "(filePairs c' = pre' @ fp' # post'
      \<and> map (spec_pair_size w') pre' = map Some ns \<and> sum_list ns < BUNDLE_SIZE_BYTE_LIMIT
      \<and> stat_size w' (image_path fp') = Some a \<and> stat_size w' (manifest fp') = None
    \<longrightarrow> (\<exists>t. resume w' (SuspendedYield c') =
                (Yielded (Inl (StatError (manifest fp'))), SuspendedYield c', t)
            \<and> list_all is_stat t))
   \<and> (filePairs c \<noteq> [] \<and> fst (getBundleRange w (filePairs c)) = Inr r
      \<and> take (count r) (filePairs c) = pre @ fp # post
      \<and> fst (reduce_pairs w (signer c) empty_acc pre) = Inr acc
      \<and> readFile w (image_path fp) = Some b
      \<and> getType w (image_path fp) = Some ct
      \<and> sign_id w (signer c) b (imageTags @ [(''Content-Type'', Some ct)]) = Some i
      \<and> metadata_unusable w (manifest fp)
    \<longrightarrow> (\<exists>e t.
          fst (getUpdatedManifest w (manifest fp) (''https://arweave.net/'' @ i) (Some ct)) = Inl e
        \<and> processBundleFilePair w (signer c) acc fp =
            (Inl e, [EvReadFile (image_path fp),
                     EvSign \<lparr>rawData = b, tags = imageTags @ [(''Content-Type'', Some ct)],
                             id_tx = []\<rparr>,
                     EvReadFile (manifest fp)])
        \<and> resume w (SuspendedYield c) =
            (Yielded (Inl e), SuspendedYield (c\<lparr>filePairs := drop (count r) (filePairs c)\<rparr>), t)
        \<and> \<not> list_ex is_submission t))"
proof (intro conjI impI; (elim conjE)?)
  assume "filePairs c' = pre' @ fp' # post'"
    and "map (spec_pair_size w') pre' = map Some ns" and "sum_list ns < BUNDLE_SIZE_BYTE_LIMIT"
    and "stat_size w' (image_path fp') = Some a" and "stat_size w' (manifest fp') = None"
  then show "\<exists>t. resume w' (SuspendedYield c') =
                (Yielded (Inl (StatError (manifest fp'))), SuspendedYield c', t)
            \<and> list_all is_stat t"
    by (rule resume_manifest_not_measured)
next
  assume ne: "filePairs c \<noteq> []" and r: "fst (getBundleRange w (filePairs c)) = Inr r"
    and tk: "take (count r) (filePairs c) = pre @ fp # post"
    and acc: "fst (reduce_pairs w (signer c) empty_acc pre) = Inr acc"
    and b: "readFile w (image_path fp) = Some b"
    and ct: "getType w (image_path fp) = Some ct"
    and i: "sign_id w (signer c) b (imageTags @ [(''Content-Type'', Some ct)]) = Some i"
    and bad: "metadata_unusable w (manifest fp)"
  from bad obtain e where
    e: "fst (getUpdatedManifest w (manifest fp) (''https://arweave.net/'' @ i) (Some ct)) = Inl e"
    using getUpdatedManifest_fails_iff by blast
  from processBundleFilePair_metadata_fails[OF b ct i e]
  have pair: "processBundleFilePair w (signer c) acc fp =
        (Inl e, [EvReadFile (image_path fp),
                 EvSign \<lparr>rawData = b, tags = imageTags @ [(''Content-Type'', Some ct)],
                         id_tx = []\<rparr>,
                 EvReadFile (manifest fp)])" .
  with tk acc
  have "fst (reduce_pairs w (signer c) empty_acc (take (count r) (filePairs c))) = Inl e"
    by (simp add: fst_reduce_pairs_append fst_io_bind)
  from processBundle_pairs_fail[OF this]
  have 1: "fst (fst (processBundle w c r)) = Inl e"
    and 2: "\<not> list_ex is_submission (snd (fst (processBundle w c r)))" by simp_all
  let ?t = "snd (getBundleRange w (filePairs c)) @ snd (fst (processBundle w c r))"
  from resume_loop_range[OF ne r] 1
  have "resume w (SuspendedYield c) =
        (Yielded (Inl e), SuspendedYield (c\<lparr>filePairs := drop (count r) (filePairs c)\<rparr>), ?t)"
    by simp
  moreover from 2 getBundleRange_no_submission[of w "filePairs c"]
  have "\<not> list_ex is_submission ?t" by simp
  ultimately show "\<exists>e t.
          fst (getUpdatedManifest w (manifest fp) (''https://arweave.net/'' @ i) (Some ct)) = Inl e
        \<and> processBundleFilePair w (signer c) acc fp =
            (Inl e, [EvReadFile (image_path fp),
                     EvSign \<lparr>rawData = b, tags = imageTags @ [(''Content-Type'', Some ct)],
                             id_tx = []\<rparr>,
                     EvReadFile (manifest fp)])
        \<and> resume w (SuspendedYield c) =
            (Yielded (Inl e), SuspendedYield (c\<lparr>filePairs := drop (count r) (filePairs c)\<rparr>), t)
        \<and> \<not> list_ex is_submission t"
    using e pair by blast
qed

theorem unusable_manifest_aborts_bundle_witness:
  "(\<exists>t. filePairs demo_locals = [demo_pair ''0''] @ demo_pair ''1'' # [demo_pair ''2'']
      \<and> map (spec_pair_size missing_world) [demo_pair ''0''] = map Some [20000285]
      \<and> stat_size missing_world (image_path (demo_pair ''1'')) = Some 20000000
      \<and> stat_size missing_world (manifest (demo_pair ''1'')) = None
      \<and> resume missing_world (SuspendedYield demo_locals) =
          (Yielded (Inl (StatError ''/assets/1.json'')), SuspendedYield demo_locals, t)
      \<and> list_all is_stat t)
   \<and> (\<exists>acc t. filePairs demo_locals \<noteq> []
      \<and> fst (getBundleRange bad_world (filePairs demo_locals)) = Inr \<lparr>count = 2, size_bytes = 40000509\<rparr>
      \<and> fst (reduce_pairs bad_world (signer demo_locals) empty_acc [demo_pair ''0'']) = Inr acc
      \<and> readFile bad_world (image_path (demo_pair ''1'')) = Some ''PNG /assets/1.png''
      \<and> getType bad_world (image_path (demo_pair ''1'')) = Some ''image/png''
      \<and> metadata_unusable bad_world (manifest (demo_pair ''1''))
      \<and> resume bad_world (SuspendedYield demo_locals) =
          (Yielded (Inl JSONSyntaxError),
           SuspendedYield (demo_locals\<lparr>filePairs := [demo_pair ''2'']\<rparr>), t)
      \<and> \<not> list_ex is_submission t)"
proof (rule conjI)
  have fps: "filePairs demo_locals = [demo_pair ''0''] @ demo_pair ''1'' # [demo_pair ''2'']"
    by simp
  have ns: "map (spec_pair_size missing_world) [demo_pair ''0''] = map Some [20000285]"
    using missing_pair_0 by simp
  have lim: "sum_list [20000285::nat] < BUNDLE_SIZE_BYTE_LIMIT"
    by (simp add: BUNDLE_SIZE_BYTE_LIMIT_def)
  have im: "stat_size missing_world (image_path (demo_pair ''1'')) = Some 20000000" by simp
  have mf: "stat_size missing_world (manifest (demo_pair ''1'')) = None" by simp
  from unusable_manifest_aborts_bundle[where c' = demo_locals and pre' = "[demo_pair ''0'']"
      and fp' = "demo_pair ''1''" and post' = "[demo_pair ''2'']" and w' = missing_world
      and ns = "[20000285]" and a = 20000000, THEN conjunct1, rule_format, OF conjI[OF fps
      conjI[OF ns conjI[OF lim conjI[OF im mf]]]]]
  obtain t where
    step: "resume missing_world (SuspendedYield demo_locals) =
        (Yielded (Inl (StatError (manifest (demo_pair ''1'')))), SuspendedYield demo_locals, t)"
    and st: "list_all is_stat t"
    by blast
  have m: "manifest (demo_pair ''1'') = ''/assets/1.json''" by simp
  from step[unfolded m] st fps ns im mf
  show "\<exists>t. filePairs demo_locals = [demo_pair ''0''] @ demo_pair ''1'' # [demo_pair ''2'']
      \<and> map (spec_pair_size missing_world) [demo_pair ''0''] = map Some [20000285]
      \<and> stat_size missing_world (image_path (demo_pair ''1'')) = Some 20000000
      \<and> stat_size missing_world (manifest (demo_pair ''1'')) = None
      \<and> resume missing_world (SuspendedYield demo_locals) =
          (Yielded (Inl (StatError ''/assets/1.json'')), SuspendedYield demo_locals, t)
      \<and> list_all is_stat t"
    by blast
next
  let ?r = "\<lparr>count = 2, size_bytes = 40000509\<rparr>"
  have ne: "filePairs demo_locals \<noteq> []" by simp
  have r: "fst (getBundleRange bad_world (filePairs demo_locals)) = Inr ?r"
    using bad_range by simp
  have tk: "take (count ?r) (filePairs demo_locals) = [demo_pair ''0''] @ demo_pair ''1'' # []"
    by simp
  from bad_pair_0[of empty_acc] obtain acc where
    acc: "fst (reduce_pairs bad_world (signer demo_locals) empty_acc [demo_pair ''0'']) = Inr acc"
    by (auto simp: fst_io_bind io_return_def simp del: demo_pair_fields)
  have b: "readFile bad_world (image_path (demo_pair ''1'')) = Some ''PNG /assets/1.png''"
    by simp
  have ct: "getType bad_world (image_path (demo_pair ''1'')) = Some ''image/png''" by simp
  have i: "sign_id bad_world (signer demo_locals) ''PNG /assets/1.png''
             (imageTags @ [(''Content-Type'', Some ''image/png'')])
           = Some (demo_id ''PNG /assets/1.png'')"
    by simp
  from unusable_manifest_aborts_bundle[where c = demo_locals and w = bad_world and r = ?r
      and pre = "[demo_pair ''0'']" and fp = "demo_pair ''1''" and post = "[]" and acc = acc
      and b = "''PNG /assets/1.png''" and ct = "''image/png''"
      and i = "demo_id ''PNG /assets/1.png''", THEN conjunct2, rule_format, OF conjI[OF ne
      conjI[OF r conjI[OF tk conjI[OF acc conjI[OF b conjI[OF ct
      conjI[OF i bad_manifest_unusable]]]]]]]]
  obtain e t where
    e: "fst (getUpdatedManifest bad_world (manifest (demo_pair ''1''))
        (''https://arweave.net/'' @ demo_id ''PNG /assets/1.png'') (Some ''image/png'')) = Inl e"
    and step: "resume bad_world (SuspendedYield demo_locals) =
        (Yielded (Inl e),
         SuspendedYield (demo_locals\<lparr>filePairs := drop (count ?r) (filePairs demo_locals)\<rparr>), t)"
    and sub: "\<not> list_ex is_submission t"
    by blast
  from e[unfolded bad_manifest_error] have e': "e = JSONSyntaxError" by simp
  have dr: "drop (count ?r) (filePairs demo_locals) = [demo_pair ''2'']" by simp
  from step[unfolded e' dr] sub ne r acc b ct bad_manifest_unusable
  show "\<exists>acc t. filePairs demo_locals \<noteq> []
      \<and> fst (getBundleRange bad_world (filePairs demo_locals)) = Inr \<lparr>count = 2, size_bytes = 40000509\<rparr>
      \<and> fst (reduce_pairs bad_world (signer demo_locals) empty_acc [demo_pair ''0'']) = Inr acc
      \<and> readFile bad_world (image_path (demo_pair ''1'')) = Some ''PNG /assets/1.png''
      \<and> getType bad_world (image_path (demo_pair ''1'')) = Some ''image/png''
      \<and> metadata_unusable bad_world (manifest (demo_pair ''1''))
      \<and> resume bad_world (SuspendedYield demo_locals) =
          (Yielded (Inl JSONSyntaxError),
           SuspendedYield (demo_locals\<lparr>filePairs := [demo_pair ''2'']\<rparr>), t)
      \<and> \<not> list_ex is_submission t"
    by blast
qed

subsection \<open>The link reported for a pair\<close>

lemma demo_id_image_0: "demo_id ''PNG /assets/0.png'' = ''tx35490''"
  by (simp add: demo_id_def hex_digit_def)

lemma demo_updated_0:
  "fst (getUpdatedManifest demo_world ''/assets/0.json'' l (Some ''image/png'')) = Inr m \<Longrightarrow>
   m = JObj [(''name'', JStr ''Asset''), (''image'', JStr l),
             (''properties'', JObj [(''files'',
                JArr [JObj [(''type'', JStr ''image/png''), (''uri'', JStr l)]] [])])]"
  by (simp add: getUpdatedManifest_def fst_io_bind fst_read_file io_return_def js_val_def
      demo_manifest_def)

lemma demo_id_manifest_0: "demo_id (JSON_stringify demo_linked_manifest) = ''txaf32e''"
  by (simp add: demo_linked_manifest_def demo_id_def hex_digit_def quote_def quote_char_def)

lemma demo_id_path_manifest_0:
  "demo_id (JSON_stringify (createArweavePathManifest ''tx35490'' ''txaf32e'' ''.png'')) = ''tx1a62c''"
  by (simp add: demo_id_def hex_digit_def quote_def quote_char_def createArweavePathManifest_def)

text \<open>
  C7. The claim fails on the code. For the pair \<open>0\<close> of the demo collection the three
  data items get the ids \<open>tx35490\<close> (image), \<open>txaf32e\<close> (manifest) and \<open>tx1a62c\<close> (path
  manifest, signed last), and the link pushed to \<open>arweavePathManifestLinks\<close> is made of
  the id of the manifest item, not of the id of the path manifest item.
\<close>

theorem link_is_made_of_manifest_id:
  "fst (processBundleFilePair demo_world (SolanaSigner ''secret'') empty_acc (demo_pair ''0'')) =
     Inr \<lparr>cacheKeys = [''0''],
          arweavePathManifestLinks = [''https://arweave.net/txaf32e''],
          updatedManifests = [demo_linked_manifest],
          dataItems =
            [\<lparr>rawData = ''PNG /assets/0.png'',
              tags = imageTags @ [(''Content-Type'', Some ''image/png'')],
              id_tx = ''tx35490''\<rparr>,
             \<lparr>rawData = JSON_stringify demo_linked_manifest, tags = manifestTags,
              id_tx = ''txaf32e''\<rparr>,
             \<lparr>rawData = JSON_stringify
                 (createArweavePathManifest ''tx35490'' ''txaf32e'' ''.png''),
              tags = arweavePathManifestTags, id_tx = ''tx1a62c''\<rparr>]\<rparr>"
proof -
  let ?s = "SolanaSigner ''secret''"
  let ?ct = "getType demo_world (image_path (demo_pair ''0''))"
  from processBundleFilePair_succeeds[of demo_world "demo_pair ''0''" ?s empty_acc]
    demo_manifest_usable[of "''/assets/0.json''"]
  obtain acc where acc: "fst (processBundleFilePair demo_world ?s empty_acc (demo_pair ''0'')) = Inr acc"
    by (auto intro: getUpdatedManifest_succeeds)
  from processBundleFilePair_Inr[OF acc] obtain b i1 m i2 i3 where
    b: "readFile demo_world (image_path (demo_pair ''0'')) = Some b"
    and i1: "sign_id demo_world ?s b (imageTags @ [(''Content-Type'', ?ct)]) = Some i1"
    and m: "fst (getUpdatedManifest demo_world (manifest (demo_pair ''0''))
        (''https://arweave.net/'' @ i1) ?ct) = Inr m"
    and i2: "sign_id demo_world ?s (JSON_stringify m) manifestTags = Some i2"
    and i3: "sign_id demo_world ?s (JSON_stringify (createArweavePathManifest i1 i2
        (''.'' @ js_str (getExtension demo_world ?ct)))) arweavePathManifestTags = Some i3"
    and eq: "acc = empty_acc
         \<lparr>cacheKeys := cacheKeys empty_acc @ [key (demo_pair ''0'')],
          dataItems := dataItems empty_acc @
            [\<lparr>rawData = b, tags = imageTags @ [(''Content-Type'', ?ct)], id_tx = i1\<rparr>,
             \<lparr>rawData = JSON_stringify m, tags = manifestTags, id_tx = i2\<rparr>,
             \<lparr>rawData = JSON_stringify (createArweavePathManifest i1 i2
                  (''.'' @ js_str (getExtension demo_world ?ct))),
              tags = arweavePathManifestTags, id_tx = i3\<rparr>],
          arweavePathManifestLinks :=
            arweavePathManifestLinks empty_acc @ [''https://arweave.net/'' @ i2],
          updatedManifests := updatedManifests empty_acc @ [m]\<rparr>"
    by blast
  from b have b': "b = ''PNG /assets/0.png''" by simp
  from i1 b' have i1': "i1 = ''tx35490''" by (simp add: demo_id_image_0)
  from demo_updated_0[of "''https://arweave.net/'' @ i1" m] m i1'
  have m': "m = demo_linked_manifest" by (simp add: demo_linked_manifest_def)
  from i2 have "i2 = demo_id (JSON_stringify m)" by simp
  also have "\<dots> = ''txaf32e''" unfolding m' by (rule demo_id_manifest_0)
  finally have i2': "i2 = ''txaf32e''" .
  from i3 have "i3 = demo_id (JSON_stringify (createArweavePathManifest ''tx35490'' ''txaf32e'' ''.png''))"
    unfolding i1' i2' by (simp add: js_str_def)
  also have "\<dots> = ''tx1a62c''" by (rule demo_id_path_manifest_0)
  finally have i3': "i3 = ''tx1a62c''" .
  have ext: "''.'' @ js_str (getExtension demo_world ?ct) = ''.png''" by (simp add: js_str_def)
  show ?thesis
    unfolding acc eq ext b' i1' i2' i3' m' by (simp add: empty_acc_def)
qed

end
